theory Spec2Isabelle
  imports Complex_Main "HOL-Library.Word" "HOL-Library.Signed_Division"
begin

unbundle bit_operations_syntax

section \<open>Target and data\<close>

text \<open>
  The file \<^verbatim>\<open>updater/bootloader.c\<close> is built for 32-bit little-endian ARM handsets:
  \<^verbatim>\<open>int\<close>, \<^verbatim>\<open>unsigned\<close>, \<^verbatim>\<open>size_t\<close>, \<^verbatim>\<open>ssize_t\<close>, \<^verbatim>\<open>off_t\<close> and \<^verbatim>\<open>long\<close> are 32 bits
  wide and plain \<^verbatim>\<open>char\<close> is unsigned. All of them are 32-bit words here; \<open>sint\<close> reads a
  word as a signed value, and the comparisons of the source that mix the types are
  comparisons of the same 32 bits. A non-null pointer is a natural number, \<^verbatim>\<open>NULL\<close> is
  \<open>None\<close>; a pointer to bytes that the callee only reads is the list of bytes it points to.
\<close>

type_synonym byte = "8 word"
type_synonym word32 = "32 word"
type_synonym ptr = nat

text \<open>\<^verbatim>\<open>struct update_header\<close> (lines 135-153). The field \<^verbatim>\<open>size\<close> is \<open>size_h\<close>.\<close>

record update_header =
  MAGIC :: "byte list"
  version :: word32
  size_h :: word32
  image_offset :: word32
  image_length :: word32
  bitmap_width :: word32
  bitmap_height :: word32
  bitmap_bpp :: word32
  busy_bitmap_offset :: word32
  busy_bitmap_length :: word32
  fail_bitmap_offset :: word32
  fail_bitmap_length :: word32

text \<open>The bytes of a 32-bit value in memory, least significant first.\<close>

definition le32 :: "word32 \<Rightarrow> byte list" where
  "le32 x = [ucast x, ucast (drop_bit 8 x), ucast (drop_bit 16 x), ucast (drop_bit 24 x)]"

text \<open>
  The object representation of the header, which is what \<^verbatim>\<open>(char*) &header\<close> points to:
  the magic, padding up to the alignment of \<^verbatim>\<open>unsigned\<close>, then the eleven fields.
\<close>

definition struct_pad :: "nat \<Rightarrow> nat" where
  "struct_pad n = (4 - n mod 4) mod 4"

definition header_bytes :: "update_header \<Rightarrow> byte list" where
  "header_bytes h =
     MAGIC h @ replicate (struct_pad (length (MAGIC h))) 0 @
     concat (map le32
       [version h, size_h h, image_offset h, image_length h,
        bitmap_width h, bitmap_height h, bitmap_bpp h,
        busy_bitmap_offset h, busy_bitmap_length h,
        fail_bitmap_offset h, fail_bitmap_length h])"

text \<open>
  What a call of one of the three functions ends in: a returned \<^verbatim>\<open>int\<close>, or undefined
  behaviour of the C program (a \<^verbatim>\<open>memcpy\<close> outside the object it is given, a
  \<^verbatim>\<open>%s\<close> that reads past the end of the object it is given).
\<close>

datatype c_result = Return word32 | Undefined

text \<open>
  \<^verbatim>\<open>memcpy(dst + off, src, n)\<close> on byte lists; \<open>None\<close> where the copy would leave
  \<open>dst\<close> or \<open>src\<close>.
\<close>

definition memcpy :: "byte list \<Rightarrow> nat \<Rightarrow> byte list \<Rightarrow> nat \<Rightarrow> byte list option" where
  "memcpy dst off src n =
     (if off + n \<le> length dst \<and> n \<le> length src
      then Some (take off dst @ take n src @ drop (off + n) dst)
      else None)"

section \<open>The platform: what the file calls and does not define\<close>

text \<open>
  The constants of \<^verbatim>\<open>bootloader.h\<close> and \<^verbatim>\<open>roots.h\<close>, the partition primitives of
  \<^verbatim>\<open>mtdutils\<close> and the C library calls are not part of the file. They are the fields of a
  platform, over a state \<open>'s\<close> of the device and the file system that each call reads and
  updates. \<^verbatim>\<open>UPDATE_MAGIC_SIZE\<close> and \<^verbatim>\<open>LOG_MAGIC_SIZE\<close> are the lengths of the two
  magics. The message \<^verbatim>\<open>struct bootloader_message\<close> is its object representation, a byte
  list of \<open>sizeof_bootloader_message\<close> bytes whose field \<^verbatim>\<open>command\<close> starts at
  \<open>command_offset\<close>.

  \<^item> \<open>mtd_partition_info\<close> returns its \<^verbatim>\<open>int\<close> and the three sizes (total, erase, write)
    it stores through its non-null arguments;
  \<^item> \<open>mtd_read_data\<close> returns its \<^verbatim>\<open>ssize_t\<close> and the bytes it stored in the buffer;
  \<^item> \<open>malloc\<close> returns the new block with its indeterminate contents;
  \<^item> \<open>fread\<close> returns the bytes it stored, whose number is its result.
\<close>

record 's platform =
  MISC_NAME :: string
  CACHE_NAME :: string
  UPDATE_MAGIC :: "byte list"
  UPDATE_VERSION :: word32
  LOG_MAGIC :: "byte list"
  sizeof_bootloader_message :: nat
  command_offset :: nat
  mtd_find_partition_by_name :: "string \<Rightarrow> 's \<Rightarrow> ptr option \<times> 's"
  mtd_partition_info :: "ptr \<Rightarrow> 's \<Rightarrow> (word32 \<times> word32 \<times> word32 \<times> word32) \<times> 's"
  mtd_read_partition :: "ptr \<Rightarrow> 's \<Rightarrow> ptr option \<times> 's"
  mtd_read_data :: "ptr \<Rightarrow> word32 \<Rightarrow> 's \<Rightarrow> (word32 \<times> byte list) \<times> 's"
  mtd_read_close :: "ptr \<Rightarrow> 's \<Rightarrow> 's"
  mtd_write_partition :: "ptr \<Rightarrow> 's \<Rightarrow> ptr option \<times> 's"
  mtd_write_data :: "ptr \<Rightarrow> byte list option \<Rightarrow> word32 \<Rightarrow> 's \<Rightarrow> word32 \<times> 's"
  mtd_erase_blocks :: "ptr \<Rightarrow> word32 \<Rightarrow> 's \<Rightarrow> word32 \<times> 's"
  mtd_find_write_start :: "ptr \<Rightarrow> word32 \<Rightarrow> 's \<Rightarrow> word32 \<times> 's"
  mtd_write_close :: "ptr \<Rightarrow> 's \<Rightarrow> word32 \<times> 's"
  malloc :: "word32 \<Rightarrow> 's \<Rightarrow> byte list option \<times> 's"
  fopen :: "string \<Rightarrow> 's \<Rightarrow> ptr option \<times> 's"
  fseek :: "ptr option \<Rightarrow> word32 \<Rightarrow> 's \<Rightarrow> 's"
  fread :: "ptr option \<Rightarrow> word32 \<Rightarrow> 's \<Rightarrow> byte list \<times> 's"
  fclose :: "ptr option \<Rightarrow> 's \<Rightarrow> 's"

definition UPDATE_MAGIC_SIZE :: "'s platform \<Rightarrow> nat" where
  "UPDATE_MAGIC_SIZE P = length (UPDATE_MAGIC P)"

definition LOG_MAGIC_SIZE :: "'s platform \<Rightarrow> nat" where
  "LOG_MAGIC_SIZE P = length (LOG_MAGIC P)"

text \<open>\<^verbatim>\<open>sizeof(struct update_header)\<close>.\<close>

definition sizeof_update_header :: "'s platform \<Rightarrow> nat" where
  "sizeof_update_header P = UPDATE_MAGIC_SIZE P + struct_pad (UPDATE_MAGIC_SIZE P) + 44"

text \<open>Lines 26-27.\<close>

definition MISC_PAGES :: word32 where
  "MISC_PAGES = 3"

definition MISC_COMMAND_PAGE :: word32 where
  "MISC_COMMAND_PAGE = 1"

section \<open>Calls and their record\<close>

text \<open>
  Every call the code makes is recorded, with its arguments and its result, together with
  the state of the platform right after it. The record is what the statements about
  the order of the calls, and about the device at every point of a run, are made of.
\<close>

datatype log_arg = Arg_string "byte list" | Arg_int word32

datatype event =
    Mtd_find_partition_by_name string "ptr option"
  | Mtd_partition_info ptr word32
  | Mtd_read_partition ptr "ptr option"
  | Mtd_read_data ptr word32 word32
  | Mtd_read_close ptr
  | Mtd_write_partition ptr "ptr option"
  | Mtd_write_data ptr "byte list option" word32 word32
  | Mtd_erase_blocks ptr word32 word32
  | Mtd_find_write_start ptr word32 word32
  | Mtd_write_close ptr word32
  | Malloc word32 "byte list option"
  | Fopen string "ptr option"
  | Fseek "ptr option" word32
  | Fread "ptr option" word32 word32
  | Fclose "ptr option"
  | Free
  | Log_E string
  | Log_I string "log_arg list"

record 's world =
  dev :: 's
  trace :: "(event \<times> 's) list"

definition call :: "('s \<Rightarrow> 'r \<times> 's) \<Rightarrow> ('r \<Rightarrow> event) \<Rightarrow> 's world \<Rightarrow> 'r \<times> 's world" where
  "call f ev w =
     (case f (dev w) of (r, d) \<Rightarrow> (r, \<lparr>dev = d, trace = trace w @ [(ev r, d)]\<rparr>))"

definition call_void :: "('s \<Rightarrow> 's) \<Rightarrow> event \<Rightarrow> 's world \<Rightarrow> 's world" where
  "call_void f e w = (let d = f (dev w) in \<lparr>dev = d, trace = trace w @ [(e, d)]\<rparr>)"

definition record_event :: "event \<Rightarrow> 's world \<Rightarrow> 's world" where
  "record_event e w = \<lparr>dev = dev w, trace = trace w @ [(e, dev w)]\<rparr>"

text \<open>\<^verbatim>\<open>LOGE\<close> (line 30) and \<^verbatim>\<open>LOGI\<close>: the format and the arguments other than \<^verbatim>\<open>strerror(errno)\<close>
  and the partition name.\<close>

definition LOGE :: "string \<Rightarrow> 's world \<Rightarrow> 's world" where
  "LOGE fmt w = record_event (Log_E fmt) w"

definition LOGI :: "string \<Rightarrow> log_arg list \<Rightarrow> 's world \<Rightarrow> 's world" where
  "LOGI fmt as w = record_event (Log_I fmt as) w"

definition calls :: "'s world \<Rightarrow> event list" where
  "calls w = map fst (trace w)"

definition start :: "'s \<Rightarrow> 's world" where
  "start d = \<lparr>dev = d, trace = []\<rparr>"

text \<open>A call \<^verbatim>\<open>mtd_write_close(write);\<close> whose result is dropped.\<close>

definition close_dropped :: "'s platform \<Rightarrow> ptr \<Rightarrow> 's world \<Rightarrow> 's world" where
  "close_dropped P wr w = snd (call (mtd_write_close P wr) (Mtd_write_close wr) w)"

section \<open>The boot message\<close>

text \<open>
  The C string a \<^verbatim>\<open>%s\<close> prints from a pointer into an object, \<open>bs\<close> being the bytes of
  the object from that pointer to its end: the bytes before the first zero byte. The
  read goes on until it meets a zero byte, so with none in \<open>bs\<close> it leaves the object:
  \<open>None\<close>.
\<close>

definition c_string :: "byte list \<Rightarrow> byte list option" where
  "c_string bs = (if 0 \<in> set bs then Some (takeWhile (\<lambda>b. b \<noteq> 0) bs) else None)"

text \<open>
  \<^verbatim>\<open>get_bootloader_message\<close> (lines 45-74). The result is the returned \<^verbatim>\<open>int\<close> and what the
  call stored in \<^verbatim>\<open>*out\<close>: \<open>None\<close> when it did not write to it. The array \<^verbatim>\<open>data\<close> is a
  list of \<open>size\<close> bytes holding what the read stored. The dump under \<^verbatim>\<open>LOG_VERBOSE\<close> is
  not compiled.
\<close>

definition get_bootloader_message ::
  "'s platform \<Rightarrow> 's world \<Rightarrow> (c_result \<times> byte list option) \<times> 's world" where
  "get_bootloader_message P w0 =
     (case call (mtd_find_partition_by_name P (MISC_NAME P))
                (Mtd_find_partition_by_name (MISC_NAME P)) w0 of
        (None, w1) \<Rightarrow> ((Return (- 1), None), LOGE ''Can't find %s\<newline>'' w1)
      | (Some part, w1) \<Rightarrow>
     (case call (mtd_partition_info P part) (\<lambda>r. Mtd_partition_info part (fst r)) w1 of
        ((rc, total_size, erase_size, write_size), w2) \<Rightarrow>
     if rc \<noteq> 0 then ((Return (- 1), None), LOGE ''Can't find %s\<newline>'' w2) else
     (case call (mtd_read_partition P part) (Mtd_read_partition part) w2 of
        (None, w3) \<Rightarrow> ((Return (- 1), None), LOGE ''Can't open %s\<newline>(%s)\<newline>'' w3)
      | (Some read, w3) \<Rightarrow>
     (let size = write_size * MISC_PAGES in
      case call (mtd_read_data P read size) (\<lambda>r. Mtd_read_data read size (fst r)) w3 of
        ((r, stored), w4) \<Rightarrow>
     (let data = take (unat size) (stored @ replicate (unat size) 0);
          w5 = (if r \<noteq> size then LOGE ''Can't read %s\<newline>(%s)\<newline>'' w4 else w4);
          w6 = call_void (mtd_read_close P read) (Mtd_read_close read) w5
      in if r \<noteq> size then ((Return (- 1), None), w6)
         else if unat (write_size * MISC_COMMAND_PAGE) + sizeof_bootloader_message P
                   \<le> length data
         then ((Return 0,
                Some (take (sizeof_bootloader_message P)
                        (drop (unat (write_size * MISC_COMMAND_PAGE)) data))), w6)
         else ((Undefined, None), w6))))))"

text \<open>
  \<^verbatim>\<open>set_bootloader_message\<close> (lines 76-122); \<open>msg\<close> is the object \<^verbatim>\<open>in\<close> points to.
  Line 120 reads \<^verbatim>\<open>in->command[0]\<close> and, when that byte is not 255, hands \<^verbatim>\<open>in->command\<close>
  to a \<^verbatim>\<open>%s\<close>, which reads from the command field on until a zero byte: the call is
  undefined when the object holds none from there on, and nothing is recorded of what
  it prints then.
\<close>

definition set_bootloader_message ::
  "'s platform \<Rightarrow> byte list \<Rightarrow> 's world \<Rightarrow> c_result \<times> 's world" where
  "set_bootloader_message P msg w0 =
     (case call (mtd_find_partition_by_name P (MISC_NAME P))
                (Mtd_find_partition_by_name (MISC_NAME P)) w0 of
        (None, w1) \<Rightarrow> (Return (- 1), LOGE ''Can't find %s\<newline>'' w1)
      | (Some part, w1) \<Rightarrow>
     (case call (mtd_partition_info P part) (\<lambda>r. Mtd_partition_info part (fst r)) w1 of
        ((rc, total_size, erase_size, write_size), w2) \<Rightarrow>
     if rc \<noteq> 0 then (Return (- 1), LOGE ''Can't find %s\<newline>'' w2) else
     (case call (mtd_read_partition P part) (Mtd_read_partition part) w2 of
        (None, w3) \<Rightarrow> (Return (- 1), LOGE ''Can't open %s\<newline>(%s)\<newline>'' w3)
      | (Some read, w3) \<Rightarrow>
     (let size = write_size * MISC_PAGES in
      case call (mtd_read_data P read size) (\<lambda>r. Mtd_read_data read size (fst r)) w3 of
        ((r, stored), w4) \<Rightarrow>
     (let data = take (unat size) (stored @ replicate (unat size) 0);
          w5 = (if r \<noteq> size then LOGE ''Can't read %s\<newline>(%s)\<newline>'' w4 else w4);
          w6 = call_void (mtd_read_close P read) (Mtd_read_close read) w5
      in if r \<noteq> size then (Return (- 1), w6)
         else
     (case memcpy data (unat (write_size * MISC_COMMAND_PAGE)) msg
             (sizeof_bootloader_message P) of
        None \<Rightarrow> (Undefined, w6)
      | Some data' \<Rightarrow>
     (case call (mtd_write_partition P part) (Mtd_write_partition part) w6 of
        (None, w7) \<Rightarrow> (Return (- 1), LOGE ''Can't open %s\<newline>(%s)\<newline>'' w7)
      | (Some write, w7) \<Rightarrow>
     (case call (mtd_write_data P write (Some data') size)
                (Mtd_write_data write (Some data') size) w7 of
        (n, w8) \<Rightarrow>
     if n \<noteq> size
     then (Return (- 1),
           close_dropped P write (LOGE ''Can't write %s\<newline>(%s)\<newline>'' w8))
     else
     (case call (mtd_write_close P write) (Mtd_write_close write) w8 of
        (c, w9) \<Rightarrow>
     if c \<noteq> 0 then (Return (- 1), LOGE ''Can't finish %s\<newline>(%s)\<newline>'' w9)
     else
     (case drop (command_offset P) msg of
        [] \<Rightarrow> (Undefined, w9)
      | c0 # cs \<Rightarrow>
     if c0 \<noteq> 255
     then (case c_string (c0 # cs) of
             None \<Rightarrow> (Undefined, w9)
           | Some s \<Rightarrow>
               (Return 0, LOGI ''Set boot command \"%s\"\<newline>'' [Arg_string s] w9))
     else (Return 0, LOGI ''Set boot command \"%s\"\<newline>'' [Arg_string []] w9)))))))))))"

section \<open>The update image\<close>

text \<open>
  The \<^verbatim>\<open>/\<close> of C on \<^verbatim>\<open>int\<close> truncates towards zero; \<open>sdiv\<close> on \<open>int\<close> does. The
  divisor in this file is the constant 8.
\<close>

definition int_div :: "word32 \<Rightarrow> word32 \<Rightarrow> word32" where
  "int_div a b = word_of_int (sint a sdiv sint b)"

text \<open>Line 224: \<^verbatim>\<open>(bitmap_bpp + 7) / 8 * bitmap_width * bitmap_height\<close>, in \<^verbatim>\<open>int\<close>.\<close>

definition bitmap_length :: "word32 \<Rightarrow> word32 \<Rightarrow> word32 \<Rightarrow> word32" where
  "bitmap_length bpp width height = int_div (bpp + 7) 8 * width * height"

text \<open>
  The local variables of \<^verbatim>\<open>write_update_for_bootloader\<close> that live across its steps
  (\<^verbatim>\<open>write\<close> is \<open>write_ctx\<close>). The three positions are 0 until the step that declares and assigns them.
\<close>

record locals =
  part :: ptr
  write_ctx :: ptr
  header :: update_header
  image_start_pos :: word32
  busy_start_pos :: word32
  fail_start_pos :: word32

text \<open>
  A step of the function either returns from it (\<open>Inl\<close>, with the result) or falls through to
  the next step (\<open>Inr\<close>, with the local variables).
\<close>

definition then_do ::
  "('r + 'a) \<times> 'w \<Rightarrow> ('a \<Rightarrow> 'w \<Rightarrow> ('r + 'b) \<times> 'w) \<Rightarrow> ('r + 'b) \<times> 'w" where
  "then_do x f = (case x of (Inl r, w) \<Rightarrow> (Inl r, w) | (Inr a, w) \<Rightarrow> f a w)"

text \<open>\<^verbatim>\<open>memset(&header, 0, sizeof(header))\<close>, line 178.\<close>

definition zero_header :: "'s platform \<Rightarrow> update_header" where
  "zero_header P =
     \<lparr>MAGIC = replicate (UPDATE_MAGIC_SIZE P) 0, version = 0, size_h = 0,
      image_offset = 0, image_length = 0,
      bitmap_width = 0, bitmap_height = 0, bitmap_bpp = 0,
      busy_bitmap_offset = 0, busy_bitmap_length = 0,
      fail_bitmap_offset = 0, fail_bitmap_length = 0\<rparr>"

definition header_size :: "'s platform \<Rightarrow> word32" where
  "header_size P = of_nat (sizeof_update_header P)"

text \<open>Lines 160-170: find the cache partition and open it for writing.\<close>

definition open_cache :: "'s platform \<Rightarrow> 's world \<Rightarrow> (c_result + ptr \<times> ptr) \<times> 's world" where
  "open_cache P w0 =
     (case call (mtd_find_partition_by_name P (CACHE_NAME P))
                (Mtd_find_partition_by_name (CACHE_NAME P)) w0 of
        (None, w1) \<Rightarrow> (Inl (Return (- 1)), LOGE ''Can't find %s\<newline>'' w1)
      | (Some pt, w1) \<Rightarrow>
     (case call (mtd_write_partition P pt) (Mtd_write_partition pt) w1 of
        (None, w2) \<Rightarrow> (Inl (Return (- 1)), LOGE ''Can't open %s\<newline>(%s)\<newline>'' w2)
      | (Some wr, w2) \<Rightarrow> (Inr (pt, wr), w2)))"

text \<open>
  Lines 177-192: write the zero header, then set the magic, the version and the size in
  the header in memory.
\<close>

definition write_zero_header ::
  "'s platform \<Rightarrow> ptr \<times> ptr \<Rightarrow> 's world \<Rightarrow> (c_result + locals) \<times> 's world" where
  "write_zero_header P pw w0 =
     (case call (mtd_write_data P (snd pw) (Some (header_bytes (zero_header P))) (header_size P))
                (Mtd_write_data (snd pw) (Some (header_bytes (zero_header P))) (header_size P))
                w0 of
        (n, w1) \<Rightarrow>
     if n \<noteq> header_size P
     then (Inl (Return (- 1)),
           close_dropped P (snd pw) (LOGE ''Can't write header to %s\<newline>(%s)\<newline>'' w1))
     else (Inr \<lparr>part = fst pw, write_ctx = snd pw,
                header = (zero_header P)
                  \<lparr>MAGIC := take (UPDATE_MAGIC_SIZE P) (UPDATE_MAGIC P),
                   version := UPDATE_VERSION P,
                   size_h := header_size P\<rparr>,
                image_start_pos = 0, busy_start_pos = 0, fail_start_pos = 0\<rparr>, w1))"

text \<open>
  Lines 194-207: with a log file, pad to the next block and write one byte of the header
  into it, which reserves the block.
\<close>

definition reserve_log_block ::
  "'s platform \<Rightarrow> string option \<Rightarrow> locals \<Rightarrow> 's world \<Rightarrow> (c_result + locals) \<times> 's world" where
  "reserve_log_block P log_filename L w0 =
     (if log_filename \<noteq> None
      then
        (case call (mtd_erase_blocks P (write_ctx L) 0) (Mtd_erase_blocks (write_ctx L) 0) w0 of
           (e, w1) \<Rightarrow>
        (case call (mtd_write_data P (write_ctx L) (Some (header_bytes (header L))) 1)
                   (Mtd_write_data (write_ctx L) (Some (header_bytes (header L))) 1) w1 of
           (n, w2) \<Rightarrow>
        if n \<noteq> 1
        then (Inl (Return (- 1)),
              close_dropped P (write_ctx L)
                (LOGE ''Can't write log block to %s\<newline>(%s)\<newline>'' w2))
        else (Inr L, w2)))
      else (Inr L, w0))"

text \<open>
  Lines 209-218: the payload. The test of line 211 reads \<^verbatim>\<open>header.image_offset\<close>, which is
  assigned on line 218; the write is not called when the test holds.
\<close>

definition write_payload ::
  "'s platform \<Rightarrow> byte list option \<Rightarrow> word32 \<Rightarrow> locals \<Rightarrow> 's world
     \<Rightarrow> (c_result + locals) \<times> 's world" where
  "write_payload P update update_length L w0 =
     (case call (mtd_erase_blocks P (write_ctx L) 0) (Mtd_erase_blocks (write_ctx L) 0) w0 of
        (pos, w1) \<Rightarrow>
     (let L1 = L\<lparr>image_start_pos := pos,
                  header := (header L)\<lparr>image_length := update_length\<rparr>\<rparr>
      in
      if sint (image_offset (header L1)) = - 1
      then (Inl (Return (- 1)),
            close_dropped P (write_ctx L1) (LOGE ''Can't write update to %s\<newline>(%s)\<newline>'' w1))
      else
     (case call (mtd_write_data P (write_ctx L1) update update_length)
                (Mtd_write_data (write_ctx L1) update update_length) w1 of
        (n, w2) \<Rightarrow>
     if n \<noteq> update_length
     then (Inl (Return (- 1)),
           close_dropped P (write_ctx L1) (LOGE ''Can't write update to %s\<newline>(%s)\<newline>'' w2))
     else
     (case call (mtd_erase_blocks P (write_ctx L1) 0) (Mtd_erase_blocks (write_ctx L1) 0) w2 of
        (bpos, w3) \<Rightarrow>
     (case call (mtd_find_write_start P (write_ctx L1) (image_start_pos L1))
                (Mtd_find_write_start (write_ctx L1) (image_start_pos L1)) w3 of
        (off, w4) \<Rightarrow>
     (Inr (L1\<lparr>busy_start_pos := bpos,
               header := (header L1)\<lparr>image_offset := off\<rparr>\<rparr>), w4))))))"

text \<open>Lines 220-237: the bitmap geometry and the busy bitmap.\<close>

definition write_busy_bitmap ::
  "'s platform \<Rightarrow> word32 \<Rightarrow> word32 \<Rightarrow> word32 \<Rightarrow> byte list option \<Rightarrow> locals \<Rightarrow> 's world
     \<Rightarrow> (c_result + locals) \<times> 's world" where
  "write_busy_bitmap P bitmap_width' bitmap_height' bitmap_bpp' busy_bitmap L w0 =
     (let len = bitmap_length bitmap_bpp' bitmap_width' bitmap_height';
          L1 = L\<lparr>header := (header L)
                 \<lparr>bitmap_width := bitmap_width',
                  bitmap_height := bitmap_height',
                  bitmap_bpp := bitmap_bpp',
                  busy_bitmap_length := (if busy_bitmap \<noteq> None then len else 0)\<rparr>\<rparr>;
          w1 = LOGE ''writing busy bitmap\<newline>'' w0
      in
      if sint (busy_bitmap_offset (header L1)) = - 1
      then (Inl (Return (- 1)),
            close_dropped P (write_ctx L1) (LOGE ''Can't write bitmap to %s\<newline>(%s)\<newline>'' w1))
      else
     (case call (mtd_write_data P (write_ctx L1) busy_bitmap len)
                (Mtd_write_data (write_ctx L1) busy_bitmap len) w1 of
        (n, w2) \<Rightarrow>
     if n \<noteq> len
     then (Inl (Return (- 1)),
           close_dropped P (write_ctx L1) (LOGE ''Can't write bitmap to %s\<newline>(%s)\<newline>'' w2))
     else
     (case call (mtd_erase_blocks P (write_ctx L1) 0) (Mtd_erase_blocks (write_ctx L1) 0)
             (LOGE ''busy bitmap written\<newline>'' w2) of
        (fpos, w3) \<Rightarrow>
     (case call (mtd_find_write_start P (write_ctx L1) (busy_start_pos L1))
                (Mtd_find_write_start (write_ctx L1) (busy_start_pos L1))
             (LOGE ''block padded\<newline>'' w3) of
        (off, w4) \<Rightarrow>
     (Inr (L1\<lparr>fail_start_pos := fpos,
               header := (header L1)\<lparr>busy_bitmap_offset := off\<rparr>\<rparr>), w4)))))"

text \<open>Lines 239-249: the fail bitmap.\<close>

definition write_fail_bitmap ::
  "'s platform \<Rightarrow> word32 \<Rightarrow> word32 \<Rightarrow> word32 \<Rightarrow> byte list option \<Rightarrow> locals \<Rightarrow> 's world
     \<Rightarrow> (c_result + locals) \<times> 's world" where
  "write_fail_bitmap P bitmap_width' bitmap_height' bitmap_bpp' fail_bitmap L w0 =
     (let len = bitmap_length bitmap_bpp' bitmap_width' bitmap_height';
          L1 = L\<lparr>header := (header L)
                 \<lparr>fail_bitmap_length := (if fail_bitmap \<noteq> None then len else 0)\<rparr>\<rparr>
      in
      if sint (fail_bitmap_offset (header L1)) = - 1
      then (Inl (Return (- 1)),
            close_dropped P (write_ctx L1) (LOGE ''Can't write bitmap to %s\<newline>(%s)\<newline>'' w0))
      else
     (case call (mtd_write_data P (write_ctx L1) fail_bitmap len)
                (Mtd_write_data (write_ctx L1) fail_bitmap len) w0 of
        (n, w1) \<Rightarrow>
     if n \<noteq> len
     then (Inl (Return (- 1)),
           close_dropped P (write_ctx L1) (LOGE ''Can't write bitmap to %s\<newline>(%s)\<newline>'' w1))
     else
     (case call (mtd_erase_blocks P (write_ctx L1) 0) (Mtd_erase_blocks (write_ctx L1) 0)
             (LOGE ''finishing block\<newline>'' w1) of
        (e, w2) \<Rightarrow>
     (case call (mtd_find_write_start P (write_ctx L1) (fail_start_pos L1))
                (Mtd_find_write_start (write_ctx L1) (fail_start_pos L1))
             (LOGE ''finished block\<newline>'' w2) of
        (off, w3) \<Rightarrow>
     (Inr (L1\<lparr>header := (header L1)\<lparr>fail_bitmap_offset := off\<rparr>\<rparr>), w3)))))"

text \<open>Lines 255-258: close the first session.\<close>

definition close_first_session ::
  "'s platform \<Rightarrow> locals \<Rightarrow> 's world \<Rightarrow> (c_result + locals) \<times> 's world" where
  "close_first_session P L w0 =
     (case call (mtd_write_close P (write_ctx L)) (Mtd_write_close (write_ctx L)) w0 of
        (c, w1) \<Rightarrow>
     if c \<noteq> 0
     then (Inl (Return (- 1)), LOGE ''Can't finish writing %s\<newline>(%s)\<newline>'' w1)
     else (Inr L, w1))"

text \<open>Lines 260-270: open the partition again and write the header.\<close>

definition rewrite_header ::
  "'s platform \<Rightarrow> locals \<Rightarrow> 's world \<Rightarrow> (c_result + locals) \<times> 's world" where
  "rewrite_header P L w0 =
     (case call (mtd_write_partition P (part L)) (Mtd_write_partition (part L)) w0 of
        (None, w1) \<Rightarrow> (Inl (Return (- 1)), LOGE ''Can't reopen %s\<newline>(%s)\<newline>'' w1)
      | (Some wr, w1) \<Rightarrow>
     (case call (mtd_write_data P wr (Some (header_bytes (header L))) (header_size P))
                (Mtd_write_data wr (Some (header_bytes (header L))) (header_size P)) w1 of
        (n, w2) \<Rightarrow>
     if n \<noteq> header_size P
     then (Inl (Return (- 1)),
           close_dropped P wr (LOGE ''Can't rewrite header to %s\<newline>(%s)\<newline>'' w2))
     else (Inr (L\<lparr>write_ctx := wr\<rparr>), w2)))"

text \<open>
  Lines 272-302: the log block. \<^verbatim>\<open>sizeof(size_t)\<close> is 4. The block \<^verbatim>\<open>log\<close> (here \<open>log'\<close>) is the list
  \<^verbatim>\<open>malloc\<close> returned; writing through it when it is \<^verbatim>\<open>NULL\<close>, or past its end, is undefined.
  The file \<^verbatim>\<open>f\<close> goes to \<^verbatim>\<open>fseek\<close>, \<^verbatim>\<open>fread\<close> and \<^verbatim>\<open>fclose\<close> as \<^verbatim>\<open>fopen\<close> returned it.
  When the write of the block fails (lines 295-299) the session is closed and the function
  goes on. \<open>log_room\<close> is \<^verbatim>\<open>erase_size-sizeof(size_t)-LOG_MAGIC_SIZE\<close>, in \<^verbatim>\<open>size_t\<close>.
\<close>

definition log_room :: "'s platform \<Rightarrow> word32 \<Rightarrow> word32" where
  "log_room P erase_size = erase_size - 4 - of_nat (LOG_MAGIC_SIZE P)"

definition write_log ::
  "'s platform \<Rightarrow> string option \<Rightarrow> locals \<Rightarrow> 's world \<Rightarrow> (c_result + locals) \<times> 's world" where
  "write_log P log_filename L w0 =
     (case log_filename of
        None \<Rightarrow> (Inr L, w0)
      | Some name \<Rightarrow>
     (case call (mtd_partition_info P (part L)) (\<lambda>r. Mtd_partition_info (part L) (fst r))
             (LOGE ''writing log\<newline>'' w0) of
        ((rc, total_size, erase_size, write_size), w1) \<Rightarrow>
     if rc \<noteq> 0
     then (Inl (Return (- 1)),
           close_dropped P (write_ctx L) (LOGE ''Error reading block size\<newline>(%s)\<newline>'' w1))
     else
     (case call (mtd_erase_blocks P (write_ctx L) 0) (Mtd_erase_blocks (write_ctx L) 0) w1 of
        (e, w2) \<Rightarrow>
     if erase_size \<noteq> 0
     then
     (case call (malloc P erase_size) (Malloc erase_size) w2 of
        (log', w3) \<Rightarrow>
     (case call (fopen P name) (Fopen name) w3 of
        (f, w4) \<Rightarrow>
     (let room = log_room P erase_size;
          w5 = call_void (fseek P f (- room)) (Fseek f (- room)) w4
      in
      case (case log' of
              None \<Rightarrow> None
            | Some blk \<Rightarrow> memcpy blk 0 (LOG_MAGIC P) (LOG_MAGIC_SIZE P)) of
        None \<Rightarrow> (Inl Undefined, w5)
      | Some log1 \<Rightarrow>
     (case call (fread P f room) (\<lambda>bs. Fread f room (of_nat (length bs))) w5 of
        (bs, w6) \<Rightarrow>
     (case memcpy log1 (4 + LOG_MAGIC_SIZE P) bs (length bs) of
        None \<Rightarrow> (Inl Undefined, w6)
      | Some log2 \<Rightarrow>
     (let read = of_nat (length bs);
          w7 = LOGI ''read %d bytes from log\<newline>'' [Arg_int read] w6
      in
      case memcpy log2 (LOG_MAGIC_SIZE P) (le32 read) 4 of
        None \<Rightarrow> (Inl Undefined, w7)
      | Some log3 \<Rightarrow>
     (case call (mtd_write_data P (write_ctx L) (Some log3) erase_size)
                (Mtd_write_data (write_ctx L) (Some log3) erase_size)
             (call_void (fclose P f) (Fclose f) w7) of
        (n, w8) \<Rightarrow>
     (Inr L,
      record_event Free
        (if n \<noteq> erase_size
         then close_dropped P (write_ctx L)
                (LOGE ''failed to store log in cache partition\<newline>(%s)\<newline>'' w8)
         else w8)))))))))
     else (Inr L, w2))))"

text \<open>Lines 304-316: the alignment check and the last close.\<close>

definition check_alignment_and_close ::
  "'s platform \<Rightarrow> locals \<Rightarrow> 's world \<Rightarrow> c_result \<times> 's world" where
  "check_alignment_and_close P L w0 =
     (case call (mtd_erase_blocks P (write_ctx L) 0) (Mtd_erase_blocks (write_ctx L) 0) w0 of
        (pos, w1) \<Rightarrow>
     if pos \<noteq> image_start_pos L
     then (Return (- 1),
           close_dropped P (write_ctx L) (LOGE ''Misalignment rewriting %s\<newline>(%s)\<newline>'' w1))
     else
     (case call (mtd_write_close P (write_ctx L)) (Mtd_write_close (write_ctx L))
             (LOGE ''closing partition\<newline>'' w1) of
        (c, w2) \<Rightarrow>
     if c \<noteq> 0
     then (Return (- 1), LOGE ''Can't finish header of %s\<newline>(%s)\<newline>'' w2)
     else (Return 0, w2)))"

text \<open>The first session, lines 160-258, and the second, lines 260-302.\<close>

definition first_pass ::
  "'s platform \<Rightarrow> byte list option \<Rightarrow> word32 \<Rightarrow> word32 \<Rightarrow> word32 \<Rightarrow> word32
     \<Rightarrow> byte list option \<Rightarrow> byte list option \<Rightarrow> string option \<Rightarrow> 's world
     \<Rightarrow> (c_result + locals) \<times> 's world" where
  "first_pass P update update_length bitmap_width' bitmap_height' bitmap_bpp'
       busy_bitmap fail_bitmap log_filename w0 =
     then_do (then_do (then_do (then_do (then_do (then_do
       (open_cache P w0)
       (write_zero_header P))
       (reserve_log_block P log_filename))
       (write_payload P update update_length))
       (write_busy_bitmap P bitmap_width' bitmap_height' bitmap_bpp' busy_bitmap))
       (write_fail_bitmap P bitmap_width' bitmap_height' bitmap_bpp' fail_bitmap))
       (close_first_session P)"

definition second_pass ::
  "'s platform \<Rightarrow> string option \<Rightarrow> locals \<Rightarrow> 's world \<Rightarrow> (c_result + locals) \<times> 's world" where
  "second_pass P log_filename L w0 =
     then_do (rewrite_header P L w0) (write_log P log_filename)"

text \<open>\<^verbatim>\<open>write_update_for_bootloader\<close> (lines 155-317).\<close>

definition write_update_for_bootloader ::
  "'s platform \<Rightarrow> byte list option \<Rightarrow> word32 \<Rightarrow> word32 \<Rightarrow> word32 \<Rightarrow> word32
     \<Rightarrow> byte list option \<Rightarrow> byte list option \<Rightarrow> string option \<Rightarrow> 's world
     \<Rightarrow> c_result \<times> 's world" where
  "write_update_for_bootloader P update update_length bitmap_width' bitmap_height' bitmap_bpp'
       busy_bitmap fail_bitmap log_filename w0 =
     (case then_do
             (first_pass P update update_length bitmap_width' bitmap_height' bitmap_bpp'
                busy_bitmap fail_bitmap log_filename w0)
             (second_pass P log_filename) of
        (Inl r, w) \<Rightarrow> (r, w)
      | (Inr L, w) \<Rightarrow> check_alignment_and_close P L w)"

section \<open>A test platform\<close>

text \<open>
  Modelled from the spec: the partition primitives (\<^verbatim>\<open>mtdutils\<close>) and the C library are not
  part of the file. This is the fake primitive that the spec's testable properties ask
  for, following its sections 2 and 6: two named partitions of bytes, one session for
  sequential reads and one for sequential writes, each starting at offset 0; a write
  stores its bytes at the position of the session and advances it; erase-align moves the
  position forward to the next block boundary and returns it; closing ends the session;
  a call on a session that is not open fails with -1. It has no defective blocks, so the
  write-start of a position is the position. \<open>writes_left\<close>, when set, is the number of
  writes that still succeed: it injects a write failure. The partition written to is
  \<^verbatim>\<open>misc\<close> (pointer 1) or \<^verbatim>\<open>cache\<close> (pointer 2).
\<close>

record fake =
  misc :: "byte list"
  cache :: "byte list"
  page :: word32
  block :: word32
  rsession :: "(ptr \<times> nat) option"
  wsession :: "(ptr \<times> nat) option"
  writes_left :: "nat option"
  files :: "(string \<times> byte list) list"
  fposition :: nat

text \<open>Modelled from the spec: the bytes of a partition, and a write into them at a position.\<close>

definition contents :: "ptr \<Rightarrow> fake \<Rightarrow> byte list" where
  "contents p d = (if p = 1 then misc d else cache d)"

definition store :: "ptr \<Rightarrow> nat \<Rightarrow> byte list \<Rightarrow> fake \<Rightarrow> fake" where
  "store p pos bs d =
     (if p = 1
      then d\<lparr>misc := take pos (misc d) @ bs @ drop (pos + length bs) (misc d)\<rparr>
      else d\<lparr>cache := take pos (cache d) @ bs @ drop (pos + length bs) (cache d)\<rparr>)"

text \<open>Modelled from the spec: the next block boundary at or after a position, for blocks of
  \<open>b\<close> bytes.\<close>

definition round_up :: "nat \<Rightarrow> nat \<Rightarrow> nat" where
  "round_up pos b = (if b = 0 then pos else ((pos + b - 1) div b) * b)"

text \<open>Modelled from the spec: \<^verbatim>\<open>mtd_find_partition_by_name\<close>, which knows the two partitions.\<close>

definition fake_find_partition_by_name :: "string \<Rightarrow> fake \<Rightarrow> ptr option \<times> fake" where
  "fake_find_partition_by_name name d =
     (if name = ''misc'' then Some 1 else if name = ''cache'' then Some 2 else None, d)"

text \<open>Modelled from the spec: \<^verbatim>\<open>mtd_partition_info\<close>, which reports the sizes of the device
  and succeeds.\<close>

definition fake_partition_info ::
  "ptr \<Rightarrow> fake \<Rightarrow> (word32 \<times> word32 \<times> word32 \<times> word32) \<times> fake" where
  "fake_partition_info p d =
     ((0, of_nat (length (contents p d)), block d, page d), d)"

text \<open>Modelled from the spec: \<^verbatim>\<open>mtd_read_partition\<close>, \<^verbatim>\<open>mtd_read_data\<close> and
  \<^verbatim>\<open>mtd_read_close\<close>. A read returns the bytes from the position of the session, as many as
  are asked for or as there are, and their number.\<close>

definition fake_read_partition :: "ptr \<Rightarrow> fake \<Rightarrow> ptr option \<times> fake" where
  "fake_read_partition p d = (Some (20 + p), d\<lparr>rsession := Some (p, 0)\<rparr>)"

definition fake_read_data :: "ptr \<Rightarrow> word32 \<Rightarrow> fake \<Rightarrow> (word32 \<times> byte list) \<times> fake" where
  "fake_read_data h n d =
     (case rsession d of
        None \<Rightarrow> ((- 1, []), d)
      | Some (p, pos) \<Rightarrow>
          if h \<noteq> 20 + p then ((- 1, []), d)
          else (let bs = take (unat n) (drop pos (contents p d))
                in ((of_nat (length bs), bs), d\<lparr>rsession := Some (p, pos + length bs)\<rparr>)))"

definition fake_read_close :: "ptr \<Rightarrow> fake \<Rightarrow> fake" where
  "fake_read_close h d = d\<lparr>rsession := None\<rparr>"

text \<open>Modelled from the spec: \<^verbatim>\<open>mtd_write_partition\<close> and \<^verbatim>\<open>mtd_write_data\<close>. A write fails,
  changing nothing, on a session that is not open, when no write is left, from a null
  pointer unless it is of no bytes, from a buffer shorter than the length, and past the end
  of the partition.\<close>

definition fake_write_partition :: "ptr \<Rightarrow> fake \<Rightarrow> ptr option \<times> fake" where
  "fake_write_partition p d = (Some (10 + p), d\<lparr>wsession := Some (p, 0)\<rparr>)"

definition fake_write_data :: "ptr \<Rightarrow> byte list option \<Rightarrow> word32 \<Rightarrow> fake \<Rightarrow> word32 \<times> fake" where
  "fake_write_data h buf n d =
     (case wsession d of
        None \<Rightarrow> (- 1, d)
      | Some (p, pos) \<Rightarrow>
          if h \<noteq> 10 + p \<or> writes_left d = Some 0 then (- 1, d)
          else
            (case buf of
               None \<Rightarrow> if n = 0 then (0, d) else (- 1, d)
             | Some bs \<Rightarrow>
                 if unat n \<le> length bs \<and> pos + unat n \<le> length (contents p d)
                 then (n, (store p pos (take (unat n) bs) d)
                            \<lparr>wsession := Some (p, pos + unat n),
                             writes_left := map_option (\<lambda>k. k - 1) (writes_left d)\<rparr>)
                 else (- 1, d)))"

text \<open>Modelled from the spec: \<^verbatim>\<open>mtd_erase_blocks\<close> with no blocks to erase, the erase-align,
  \<^verbatim>\<open>mtd_find_write_start\<close> and \<^verbatim>\<open>mtd_write_close\<close>.\<close>

definition fake_erase_blocks :: "ptr \<Rightarrow> word32 \<Rightarrow> fake \<Rightarrow> word32 \<times> fake" where
  "fake_erase_blocks h blocks d =
     (case wsession d of
        None \<Rightarrow> (- 1, d)
      | Some (p, pos) \<Rightarrow>
          if h \<noteq> 10 + p then (- 1, d)
          else (of_nat (round_up pos (unat (block d))),
                d\<lparr>wsession := Some (p, round_up pos (unat (block d)))\<rparr>))"

definition fake_find_write_start :: "ptr \<Rightarrow> word32 \<Rightarrow> fake \<Rightarrow> word32 \<times> fake" where
  "fake_find_write_start h pos d = (pos, d)"

definition fake_write_close :: "ptr \<Rightarrow> fake \<Rightarrow> word32 \<times> fake" where
  "fake_write_close h d =
     (case wsession d of
        None \<Rightarrow> (- 1, d)
      | Some (p, pos) \<Rightarrow> if h \<noteq> 10 + p then (- 1, d) else (0, d\<lparr>wsession := None\<rparr>))"

text \<open>Modelled from the spec: \<^verbatim>\<open>malloc\<close>, which returns a zeroed block, and \<^verbatim>\<open>fopen\<close>, which
  returns a null pointer for a file that does not exist.\<close>

definition fake_malloc :: "word32 \<Rightarrow> fake \<Rightarrow> byte list option \<times> fake" where
  "fake_malloc n d = (Some (replicate (unat n) 0), d)"

definition fake_fopen :: "string \<Rightarrow> fake \<Rightarrow> ptr option \<times> fake" where
  "fake_fopen name d =
     (case map_of (files d) name of
        None \<Rightarrow> (None, d)
      | Some bs \<Rightarrow> (Some 30, d\<lparr>fposition := 0\<rparr>))"

text \<open>Modelled from the spec: \<^verbatim>\<open>fseek\<close> from the end, \<^verbatim>\<open>fread\<close> and \<^verbatim>\<open>fclose\<close>. A seek that
  would go before the start of the file fails and leaves the position where it is. The
  fake ignores calls on a null file.\<close>

definition fake_fseek :: "string \<Rightarrow> ptr option \<Rightarrow> word32 \<Rightarrow> fake \<Rightarrow> fake" where
  "fake_fseek name f off d =
     (case (f, map_of (files d) name) of
        (Some h, Some bs) \<Rightarrow>
          if 0 \<le> int (length bs) + sint off
          then d\<lparr>fposition := nat (int (length bs) + sint off)\<rparr>
          else d
      | _ \<Rightarrow> d)"

definition fake_fread :: "string \<Rightarrow> ptr option \<Rightarrow> word32 \<Rightarrow> fake \<Rightarrow> byte list \<times> fake" where
  "fake_fread name f n d =
     (case (f, map_of (files d) name) of
        (Some h, Some bs) \<Rightarrow>
          (take (unat n) (drop (fposition d) bs),
           d\<lparr>fposition := fposition d + length (take (unat n) (drop (fposition d) bs))\<rparr>)
      | _ \<Rightarrow> ([], d))"

definition fake_fclose :: "ptr option \<Rightarrow> fake \<Rightarrow> fake" where
  "fake_fclose f d = d"

text \<open>
  Modelled from the spec: the platform of the fake primitives. \<^verbatim>\<open>bootloader.h\<close> is not part
  of the file: the magics and the version are those of the stock header, and the size of
  the message is the parameter \<open>k\<close>, so that a test can use small pages. The one file the
  fake reads is the log, \<open>logname\<close>.
\<close>

definition ascii :: "string \<Rightarrow> byte list" where
  "ascii cs = map (\<lambda>c. of_nat (of_char c)) cs"

definition fake_platform :: "nat \<Rightarrow> string \<Rightarrow> fake platform" where
  "fake_platform k logname =
     \<lparr>MISC_NAME = ''misc'', CACHE_NAME = ''cache'',
      UPDATE_MAGIC = ascii ''MSM-RADIO-UPDATE'', UPDATE_VERSION = 0x00010000,
      LOG_MAGIC = ascii ''LOGmagic'',
      sizeof_bootloader_message = k, command_offset = 0,
      mtd_find_partition_by_name = fake_find_partition_by_name,
      mtd_partition_info = fake_partition_info,
      mtd_read_partition = fake_read_partition,
      mtd_read_data = fake_read_data,
      mtd_read_close = fake_read_close,
      mtd_write_partition = fake_write_partition,
      mtd_write_data = fake_write_data,
      mtd_erase_blocks = fake_erase_blocks,
      mtd_find_write_start = fake_find_write_start,
      mtd_write_close = fake_write_close,
      malloc = fake_malloc,
      fopen = fake_fopen,
      fseek = fake_fseek logname,
      fread = fake_fread logname,
      fclose = fake_fclose\<rparr>"

text \<open>A device with pages of 4 bytes, blocks of 64 bytes, a misc partition of 16 bytes, a
  cache partition of 6 blocks, and a log file.\<close>

definition blank :: fake where
  "blank =
     \<lparr>misc = map of_nat [1 ..< 17],
      cache = replicate 384 7,
      page = 4, block = 64, rsession = None, wsession = None, writes_left = None,
      files = [(''/tmp/recovery.log'', ascii ''I:boot'')], fposition = 0\<rparr>"

text \<open>The header in memory once every step of the first session has succeeded: what the
  second session writes.\<close>

definition final_header ::
  "'s platform \<Rightarrow> word32 \<Rightarrow> word32 \<Rightarrow> word32 \<Rightarrow> word32 \<Rightarrow> byte list option \<Rightarrow> byte list option
     \<Rightarrow> word32 \<Rightarrow> word32 \<Rightarrow> word32 \<Rightarrow> update_header" where
  "final_header P update_length bw bh bpp busy_bitmap fail_bitmap off boff foff =
     \<lparr>MAGIC = UPDATE_MAGIC P, version = UPDATE_VERSION P, size_h = header_size P,
      image_offset = off, image_length = update_length,
      bitmap_width = bw, bitmap_height = bh, bitmap_bpp = bpp,
      busy_bitmap_offset = boff,
      busy_bitmap_length = (if busy_bitmap \<noteq> None then bitmap_length bpp bw bh else 0),
      fail_bitmap_offset = foff,
      fail_bitmap_length = (if fail_bitmap \<noteq> None then bitmap_length bpp bw bh else 0)\<rparr>"

text \<open>A stretch of a run in which no call opens a file: every step but the log step.\<close>

definition quiet :: "'s world \<Rightarrow> 's world \<Rightarrow> bool" where
  "quiet w0 w = (\<exists>es. calls w = calls w0 @ es \<and> (\<forall>n f. Fopen n f \<notin> set es))"

text \<open>
  Where a run of \<^verbatim>\<open>write_update_for_bootloader\<close> stands, read off its calls: before a
  write of the zero header has returned the size of the header; after it (the update on
  the device is invalidated); after the partition has been opened again; and after the
  write that follows the reopening, which is the write of the header with the magic (line
  266): the header is installed when that write returned the length it was asked for, and
  the rewrite has failed when it returned anything else.
\<close>

datatype stage = Before | Invalidated | Reopened | Installed | Rewrite_failed

fun next_stage :: "'s platform \<Rightarrow> stage \<Rightarrow> event \<Rightarrow> stage" where
  "next_stage P Before (Mtd_write_data h buf n r) =
     (if buf = Some (header_bytes (zero_header P)) \<and> n = header_size P \<and> r = n
      then Invalidated else Before)"
| "next_stage P Invalidated (Mtd_write_partition p h) =
     (if h = None then Invalidated else Reopened)"
| "next_stage P Reopened (Mtd_write_data h buf n r) =
     (if r = n then Installed else Rewrite_failed)"
| "next_stage P s e = s"

definition stage_after :: "'s platform \<Rightarrow> event list \<Rightarrow> stage" where
  "stage_after P es = foldl (next_stage P) Before es"

text \<open>The magic of the header on the cache partition of the test device.\<close>

definition disk_magic :: "fake platform \<Rightarrow> fake \<Rightarrow> byte list" where
  "disk_magic P d = take (UPDATE_MAGIC_SIZE P) (cache d)"

text \<open>
  At every point of the recorded run \<open>tr\<close> that lies after the zero header was written
  and before the header is written again, the magic on the device is zero; at every point
  from the one where the header is installed, it is the magic of an update.
\<close>

definition magic_by_stage :: "fake platform \<Rightarrow> (event \<times> fake) list \<Rightarrow> bool" where
  "magic_by_stage P tr =
     (\<forall>i < length tr.
        (stage_after P (take (Suc i) (map fst tr)) \<in> {Invalidated, Reopened} \<longrightarrow>
         disk_magic P (snd (tr ! i)) = replicate (UPDATE_MAGIC_SIZE P) 0) \<and>
        (stage_after P (take (Suc i) (map fst tr)) = Installed \<longrightarrow>
         disk_magic P (snd (tr ! i)) = UPDATE_MAGIC P))"

text \<open>No write session of the test device stands inside the magic of the cache partition.\<close>

definition past_magic :: "fake \<Rightarrow> bool" where
  "past_magic d = (case wsession d of None \<Rightarrow> True | Some (p, pos) \<Rightarrow> p = 1 \<or> 16 \<le> pos)"

definition zero_magic :: "fake \<Rightarrow> bool" where
  "zero_magic d = (take 16 (cache d) = replicate 16 0)"

definition good :: "fake \<Rightarrow> bool" where
  "good d = (zero_magic d \<and> past_magic d)"

text \<open>The test device holds the magic of an update, and no write session stands inside it.\<close>

definition settled :: "fake \<Rightarrow> bool" where
  "settled d = (take 16 (cache d) = ascii ''MSM-RADIO-UPDATE'' \<and> past_magic d)"

text \<open>The run so far has invalidated the header and has not reopened the partition.\<close>

definition invalidated :: "fake platform \<Rightarrow> fake world \<Rightarrow> bool" where
  "invalidated P w =
     (magic_by_stage P (trace w) \<and> stage_after P (calls w) = Invalidated \<and>
      good (dev w))"

text \<open>
  The write of the header with the magic has returned: it has failed, or the header is
  installed and the device holds the magic.
\<close>

definition rewritten :: "fake platform \<Rightarrow> fake world \<Rightarrow> bool" where
  "rewritten P w =
     (magic_by_stage P (trace w) \<and>
      (stage_after P (calls w) = Rewrite_failed \<or>
       stage_after P (calls w) = Installed \<and> settled (dev w)))"

text \<open>\<open>w\<close> continues the run recorded in \<open>w0\<close>.\<close>

definition continues :: "'s world \<Rightarrow> 's world \<Rightarrow> bool" where
  "continues w0 w = (\<exists>es. trace w = trace w0 @ es)"

text \<open>
  A step of the first session has returned from the function with the header untouched or
  invalidated, or falls through with the header invalidated.
\<close>

definition on_course :: "fake platform \<Rightarrow> ('r + 'a) \<times> fake world \<Rightarrow> bool" where
  "on_course P x =
     (case x of
        (Inl r, w) \<Rightarrow> stage_after P (calls w) = Before \<or> invalidated P w
      | (Inr a, w) \<Rightarrow> invalidated P w)"

section \<open>The calls of each step\<close>

lemma calls_call: "call f ev w = (r, w') \<Longrightarrow> calls w' = calls w @ [ev r]"
  by (auto simp: call_def calls_def split: prod.splits)

lemma calls_call_void [simp]: "calls (call_void f e w) = calls w @ [e]"
  by (simp add: call_void_def calls_def Let_def)

lemma calls_LOGE [simp]: "calls (LOGE fmt w) = calls w @ [Log_E fmt]"
  by (simp add: LOGE_def record_event_def calls_def)

lemma calls_LOGI [simp]: "calls (LOGI fmt as w) = calls w @ [Log_I fmt as]"
  by (simp add: LOGI_def record_event_def calls_def)

lemma calls_record_event [simp]: "calls (record_event e w) = calls w @ [e]"
  by (simp add: record_event_def calls_def)

lemma open_cache_Inr:
  "open_cache P w0 = (Inr pw, w) \<Longrightarrow>
   calls w = calls w0 @
     [Mtd_find_partition_by_name (CACHE_NAME P) (Some (fst pw)),
      Mtd_write_partition (fst pw) (Some (snd pw))]"
  by (auto simp: open_cache_def split: prod.splits option.splits dest!: calls_call)

lemma write_zero_header_Inr:
  "write_zero_header P pw w0 = (Inr L, w) \<Longrightarrow>
   calls w = calls w0 @
     [Mtd_write_data (snd pw) (Some (header_bytes (zero_header P))) (header_size P) (header_size P)] \<and>
   L = \<lparr>part = fst pw, write_ctx = snd pw,
        header = (zero_header P)
          \<lparr>MAGIC := UPDATE_MAGIC P, version := UPDATE_VERSION P, size_h := header_size P\<rparr>,
        image_start_pos = 0, busy_start_pos = 0, fail_start_pos = 0\<rparr>"
  by (auto simp: write_zero_header_def UPDATE_MAGIC_SIZE_def split: prod.splits if_splits dest!: calls_call)

lemma reserve_log_block_Inr:
  "reserve_log_block P log_filename L w0 = (Inr L', w) \<Longrightarrow>
   L' = L \<and>
   (\<exists>e. calls w = calls w0 @
     (if log_filename = None then []
      else [Mtd_erase_blocks (write_ctx L) 0 e,
            Mtd_write_data (write_ctx L) (Some (header_bytes (header L))) 1 1]))"
  by (auto simp: reserve_log_block_def split: prod.splits if_splits dest!: calls_call)

lemma write_payload_Inr:
  "write_payload P update update_length L w0 = (Inr L', w) \<Longrightarrow>
   \<exists>pos bpos off.
     calls w = calls w0 @
       [Mtd_erase_blocks (write_ctx L) 0 pos,
        Mtd_write_data (write_ctx L) update update_length update_length,
        Mtd_erase_blocks (write_ctx L) 0 bpos,
        Mtd_find_write_start (write_ctx L) pos off] \<and>
     L' = L\<lparr>image_start_pos := pos, busy_start_pos := bpos,
            header := (header L)\<lparr>image_length := update_length, image_offset := off\<rparr>\<rparr>"
  by (auto simp: write_payload_def Let_def split: prod.splits if_splits dest!: calls_call)


lemma write_busy_bitmap_Inr:
  "write_busy_bitmap P bw bh bpp busy_bitmap L w0 = (Inr L', w) \<Longrightarrow>
   \<exists>fpos off.
     calls w = calls w0 @
       [Log_E ''writing busy bitmap\<newline>'',
        Mtd_write_data (write_ctx L) busy_bitmap (bitmap_length bpp bw bh) (bitmap_length bpp bw bh),
        Log_E ''busy bitmap written\<newline>'',
        Mtd_erase_blocks (write_ctx L) 0 fpos,
        Log_E ''block padded\<newline>'',
        Mtd_find_write_start (write_ctx L) (busy_start_pos L) off] \<and>
     L' = L\<lparr>fail_start_pos := fpos,
            header := (header L)
              \<lparr>bitmap_width := bw, bitmap_height := bh, bitmap_bpp := bpp,
               busy_bitmap_length := (if busy_bitmap \<noteq> None then bitmap_length bpp bw bh else 0),
               busy_bitmap_offset := off\<rparr>\<rparr>"
  by (auto simp: write_busy_bitmap_def Let_def split: prod.splits if_splits dest!: calls_call)

lemma write_fail_bitmap_Inr:
  "write_fail_bitmap P bw bh bpp fail_bitmap L w0 = (Inr L', w) \<Longrightarrow>
   \<exists>e off.
     calls w = calls w0 @
       [Mtd_write_data (write_ctx L) fail_bitmap (bitmap_length bpp bw bh) (bitmap_length bpp bw bh),
        Log_E ''finishing block\<newline>'',
        Mtd_erase_blocks (write_ctx L) 0 e,
        Log_E ''finished block\<newline>'',
        Mtd_find_write_start (write_ctx L) (fail_start_pos L) off] \<and>
     L' = L\<lparr>header := (header L)
              \<lparr>fail_bitmap_length := (if fail_bitmap \<noteq> None then bitmap_length bpp bw bh else 0),
               fail_bitmap_offset := off\<rparr>\<rparr>"
  by (auto simp: write_fail_bitmap_def Let_def split: prod.splits if_splits dest!: calls_call)

lemma close_first_session_Inr:
  "close_first_session P L w0 = (Inr L', w) \<Longrightarrow>
   calls w = calls w0 @ [Mtd_write_close (write_ctx L) 0] \<and> L' = L"
  by (auto simp: close_first_session_def split: prod.splits if_splits dest!: calls_call)

lemma rewrite_header_Inr:
  "rewrite_header P L w0 = (Inr L', w) \<Longrightarrow>
   \<exists>wr. calls w = calls w0 @
       [Mtd_write_partition (part L) (Some wr),
        Mtd_write_data wr (Some (header_bytes (header L))) (header_size P) (header_size P)] \<and>
     L' = L\<lparr>write_ctx := wr\<rparr>"
  by (auto simp: rewrite_header_def split: prod.splits if_splits option.splits dest!: calls_call)

lemma check_alignment_and_close_0:
  "check_alignment_and_close P L w0 = (Return 0, w) \<Longrightarrow>
   calls w = calls w0 @
     [Mtd_erase_blocks (write_ctx L) 0 (image_start_pos L),
      Log_E ''closing partition\<newline>'',
      Mtd_write_close (write_ctx L) 0]"
  by (auto simp: check_alignment_and_close_def split: prod.splits if_splits dest!: calls_call)

lemma calls_close_dropped_eq [simp]:
  "calls (close_dropped P h w) = calls w @ [Mtd_write_close h (fst (mtd_write_close P h (dev w)))]"
  by (auto simp: close_dropped_def call_def calls_def split: prod.splits)

text \<open>The calls of the log step, by the way it ends.\<close>

lemma write_log_calls:
  assumes "write_log P (Some name) L w0 = (x, w)"
  shows "(\<exists>rc c. rc \<noteq> 0 \<and> x = Inl (Return (- 1)) \<and>
            calls w = calls w0 @
              [Log_E ''writing log\<newline>'', Mtd_partition_info (part L) rc,
               Log_E ''Error reading block size\<newline>(%s)\<newline>'',
               Mtd_write_close (write_ctx L) c]) \<or>
         (\<exists>e. x = Inr L \<and>
            calls w = calls w0 @
              [Log_E ''writing log\<newline>'', Mtd_partition_info (part L) 0,
               Mtd_erase_blocks (write_ctx L) 0 e]) \<or>
         (\<exists>e es blk f tl. x = Inl Undefined \<and> (\<forall>n g. Fopen n g \<notin> set tl) \<and>
            calls w = calls w0 @
              [Log_E ''writing log\<newline>'', Mtd_partition_info (part L) 0,
               Mtd_erase_blocks (write_ctx L) 0 e, Malloc es blk,
               Fopen name f, Fseek f (- log_room P es)] @ tl) \<or>
         (\<exists>e es blk f n lg r c. x = Inr L \<and> es \<noteq> 0 \<and>
            calls w = calls w0 @
              [Log_E ''writing log\<newline>'', Mtd_partition_info (part L) 0,
               Mtd_erase_blocks (write_ctx L) 0 e, Malloc es blk,
               Fopen name f, Fseek f (- log_room P es), Fread f (log_room P es) n,
               Log_I ''read %d bytes from log\<newline>'' [Arg_int n], Fclose f,
               Mtd_write_data (write_ctx L) (Some lg) es r] @
              (if r \<noteq> es
               then [Log_E ''failed to store log in cache partition\<newline>(%s)\<newline>'',
                     Mtd_write_close (write_ctx L) c]
               else []) @ [Free])"
  using assms
  apply (auto simp: write_log_def Let_def
      split: prod.splits if_splits option.splits dest!: calls_call)
  apply blast
  done

lemma write_log_Inr:
  "write_log P log_filename L w0 = (Inr L', w) \<Longrightarrow>
   L' = L \<and> (\<exists>es. calls w = calls w0 @ es \<and> (log_filename = None \<longrightarrow> es = []))"
  by (auto simp: write_log_def Let_def
      split: prod.splits if_splits option.splits dest!: calls_call)

lemma then_do_Inr:
  "then_do x f = (Inr b, w) \<Longrightarrow> \<exists>a w1. x = (Inr a, w1) \<and> f a w1 = (Inr b, w)"
  by (auto simp: then_do_def split: prod.splits sum.splits)

lemma calls_start [simp]: "calls (start d) = []"
  by (simp add: calls_def start_def)

lemma first_pass_Inr:
  assumes "first_pass P update update_length bw bh bpp busy_bitmap fail_bitmap log_filename w0
             = (Inr L, w)"
  shows "\<exists>pt wr res pos bpos fpos e off boff foff.
     calls w = calls w0 @
       [Mtd_find_partition_by_name (CACHE_NAME P) (Some pt),
        Mtd_write_partition pt (Some wr),
        Mtd_write_data wr (Some (header_bytes (zero_header P))) (header_size P) (header_size P)] @
       res @
       [Mtd_erase_blocks wr 0 pos,
        Mtd_write_data wr update update_length update_length,
        Mtd_erase_blocks wr 0 bpos,
        Mtd_find_write_start wr pos off,
        Log_E ''writing busy bitmap\<newline>'',
        Mtd_write_data wr busy_bitmap (bitmap_length bpp bw bh) (bitmap_length bpp bw bh),
        Log_E ''busy bitmap written\<newline>'',
        Mtd_erase_blocks wr 0 fpos,
        Log_E ''block padded\<newline>'',
        Mtd_find_write_start wr bpos boff,
        Mtd_write_data wr fail_bitmap (bitmap_length bpp bw bh) (bitmap_length bpp bw bh),
        Log_E ''finishing block\<newline>'',
        Mtd_erase_blocks wr 0 e,
        Log_E ''finished block\<newline>'',
        Mtd_find_write_start wr fpos foff,
        Mtd_write_close wr 0] \<and>
     (log_filename = None \<longrightarrow> res = []) \<and>
     L = \<lparr>part = pt, write_ctx = wr,
          header = final_header P update_length bw bh bpp busy_bitmap fail_bitmap off boff foff,
          image_start_pos = pos, busy_start_pos = bpos, fail_start_pos = fpos\<rparr> \<and>
     fst (open_cache P w0) = Inr (pt, wr)"
proof -
  from assms obtain L6 w6 where
    s7: "close_first_session P L6 w6 = (Inr L, w)" and
    r6: "then_do (then_do (then_do (then_do (then_do
       (open_cache P w0)
       (write_zero_header P))
       (reserve_log_block P log_filename))
       (write_payload P update update_length))
       (write_busy_bitmap P bw bh bpp busy_bitmap))
       (write_fail_bitmap P bw bh bpp fail_bitmap) = (Inr L6, w6)"
    unfolding first_pass_def by (blast dest: then_do_Inr)
  from r6 obtain L5 w5 where
    s6: "write_fail_bitmap P bw bh bpp fail_bitmap L5 w5 = (Inr L6, w6)" and
    r5: "then_do (then_do (then_do (then_do
       (open_cache P w0)
       (write_zero_header P))
       (reserve_log_block P log_filename))
       (write_payload P update update_length))
       (write_busy_bitmap P bw bh bpp busy_bitmap) = (Inr L5, w5)"
    by (blast dest: then_do_Inr)
  from r5 obtain L4 w4 where
    s5: "write_busy_bitmap P bw bh bpp busy_bitmap L4 w4 = (Inr L5, w5)" and
    r4: "then_do (then_do (then_do
       (open_cache P w0)
       (write_zero_header P))
       (reserve_log_block P log_filename))
       (write_payload P update update_length) = (Inr L4, w4)"
    by (blast dest: then_do_Inr)
  from r4 obtain L3 w3 where
    s4: "write_payload P update update_length L3 w3 = (Inr L4, w4)" and
    r3: "then_do (then_do
       (open_cache P w0)
       (write_zero_header P))
       (reserve_log_block P log_filename) = (Inr L3, w3)"
    by (blast dest: then_do_Inr)
  from r3 obtain L2 w2 where
    s3: "reserve_log_block P log_filename L2 w2 = (Inr L3, w3)" and
    r2: "then_do (open_cache P w0) (write_zero_header P) = (Inr L2, w2)"
    by (blast dest: then_do_Inr)
  from r2 obtain pw w1 where
    s2: "write_zero_header P pw w1 = (Inr L2, w2)" and
    s1: "open_cache P w0 = (Inr pw, w1)"
    by (blast dest: then_do_Inr)
  note c1 = open_cache_Inr [OF s1]
  note c2 = write_zero_header_Inr [OF s2]
  note c3 = reserve_log_block_Inr [OF s3]
  from write_payload_Inr [OF s4] obtain pos bpos off where
    c4: "calls w4 = calls w3 @
       [Mtd_erase_blocks (write_ctx L3) 0 pos,
        Mtd_write_data (write_ctx L3) update update_length update_length,
        Mtd_erase_blocks (write_ctx L3) 0 bpos,
        Mtd_find_write_start (write_ctx L3) pos off]" and
    l4: "L4 = L3\<lparr>image_start_pos := pos, busy_start_pos := bpos,
            header := (header L3)\<lparr>image_length := update_length, image_offset := off\<rparr>\<rparr>"
    by blast
  from write_busy_bitmap_Inr [OF s5] obtain fpos boff where
    c5: "calls w5 = calls w4 @
       [Log_E ''writing busy bitmap\<newline>'',
        Mtd_write_data (write_ctx L4) busy_bitmap (bitmap_length bpp bw bh) (bitmap_length bpp bw bh),
        Log_E ''busy bitmap written\<newline>'',
        Mtd_erase_blocks (write_ctx L4) 0 fpos,
        Log_E ''block padded\<newline>'',
        Mtd_find_write_start (write_ctx L4) (busy_start_pos L4) boff]" and
    l5: "L5 = L4\<lparr>fail_start_pos := fpos,
            header := (header L4)
              \<lparr>bitmap_width := bw, bitmap_height := bh, bitmap_bpp := bpp,
               busy_bitmap_length := (if busy_bitmap \<noteq> None then bitmap_length bpp bw bh else 0),
               busy_bitmap_offset := boff\<rparr>\<rparr>"
    by blast
  from write_fail_bitmap_Inr [OF s6] obtain e foff where
    c6: "calls w6 = calls w5 @
       [Mtd_write_data (write_ctx L5) fail_bitmap (bitmap_length bpp bw bh) (bitmap_length bpp bw bh),
        Log_E ''finishing block\<newline>'',
        Mtd_erase_blocks (write_ctx L5) 0 e,
        Log_E ''finished block\<newline>'',
        Mtd_find_write_start (write_ctx L5) (fail_start_pos L5) foff]" and
    l6: "L6 = L5\<lparr>header := (header L5)
              \<lparr>fail_bitmap_length := (if fail_bitmap \<noteq> None then bitmap_length bpp bw bh else 0),
               fail_bitmap_offset := foff\<rparr>\<rparr>"
    by blast
  note c7 = close_first_session_Inr [OF s7]
  from c3 obtain e0 where
    c3': "calls w3 = calls w2 @
     (if log_filename = None then []
      else [Mtd_erase_blocks (write_ctx L2) 0 e0,
            Mtd_write_data (write_ctx L2) (Some (header_bytes (header L2))) 1 1])"
    and l3: "L3 = L2" by blast
  show ?thesis
    apply (rule exI [of _ "fst pw"], rule exI [of _ "snd pw"])
    apply (rule exI [of _ "if log_filename = None then []
      else [Mtd_erase_blocks (write_ctx L2) 0 e0,
            Mtd_write_data (write_ctx L2) (Some (header_bytes (header L2))) 1 1]"])
    apply (rule exI [of _ pos], rule exI [of _ bpos], rule exI [of _ fpos], rule exI [of _ e])
    apply (rule exI [of _ off], rule exI [of _ boff], rule exI [of _ foff])
    using c1 c2 c3' l3 c4 l4 c5 l5 c6 l6 c7 s1
    by (simp add: final_header_def zero_header_def)
qed


lemma then_do_Inl:
  "then_do x f = (Inl r, w) \<Longrightarrow>
   x = (Inl r, w) \<or> (\<exists>a w1. x = (Inr a, w1) \<and> f a w1 = (Inl r, w))"
  by (auto simp: then_do_def split: prod.splits sum.splits)

text \<open>A step that returns from the function returns -1, or is undefined.\<close>

lemma open_cache_Inl: "open_cache P w0 = (Inl r, w) \<Longrightarrow> r = Return (- 1)"
  by (auto simp: open_cache_def split: prod.splits option.splits)

lemma write_zero_header_Inl: "write_zero_header P pw w0 = (Inl r, w) \<Longrightarrow> r = Return (- 1)"
  by (auto simp: write_zero_header_def split: prod.splits if_splits)

lemma reserve_log_block_Inl:
  "reserve_log_block P log_filename L w0 = (Inl r, w) \<Longrightarrow> r = Return (- 1)"
  by (auto simp: reserve_log_block_def split: prod.splits if_splits)

lemma write_payload_Inl:
  "write_payload P update update_length L w0 = (Inl r, w) \<Longrightarrow> r = Return (- 1)"
  by (auto simp: write_payload_def Let_def split: prod.splits if_splits)

lemma write_busy_bitmap_Inl:
  "write_busy_bitmap P bw bh bpp busy_bitmap L w0 = (Inl r, w) \<Longrightarrow> r = Return (- 1)"
  by (auto simp: write_busy_bitmap_def Let_def split: prod.splits if_splits)

lemma write_fail_bitmap_Inl:
  "write_fail_bitmap P bw bh bpp fail_bitmap L w0 = (Inl r, w) \<Longrightarrow> r = Return (- 1)"
  by (auto simp: write_fail_bitmap_def Let_def split: prod.splits if_splits)

lemma close_first_session_Inl:
  "close_first_session P L w0 = (Inl r, w) \<Longrightarrow> r = Return (- 1)"
  by (auto simp: close_first_session_def split: prod.splits if_splits)

lemma rewrite_header_Inl: "rewrite_header P L w0 = (Inl r, w) \<Longrightarrow> r = Return (- 1)"
  by (auto simp: rewrite_header_def split: prod.splits if_splits option.splits)

lemma write_log_Inl:
  "write_log P log_filename L w0 = (Inl r, w) \<Longrightarrow> r = Return (- 1) \<or> r = Undefined"
  by (auto simp: write_log_def Let_def split: prod.splits if_splits option.splits)

lemma first_pass_Inl:
  assumes "first_pass P update update_length bw bh bpp busy_bitmap fail_bitmap log_filename w0
             = (Inl r, w)"
  shows "r = Return (- 1)"
  using assms unfolding first_pass_def
  by (blast dest: then_do_Inl open_cache_Inl write_zero_header_Inl reserve_log_block_Inl
      write_payload_Inl write_busy_bitmap_Inl write_fail_bitmap_Inl close_first_session_Inl)

lemma second_pass_Inl:
  "second_pass P log_filename L w0 = (Inl r, w) \<Longrightarrow> r = Return (- 1) \<or> r = Undefined"
  unfolding second_pass_def
  by (blast dest: then_do_Inl rewrite_header_Inl write_log_Inl)

lemma both_passes_Inl:
  assumes "then_do
             (first_pass P update update_length bw bh bpp busy_bitmap fail_bitmap log_filename w0)
             (second_pass P log_filename) = (Inl r, w)"
  shows "r = Return (- 1) \<or> r = Undefined"
  using assms by (blast dest: then_do_Inl first_pass_Inl second_pass_Inl)

text \<open>An erase-align of the second session that does not return the position recorded
  before the payload makes the function return -1 (lines 304-308).\<close>

lemma misaligned_is_failure:
  assumes "mtd_erase_blocks P (write_ctx L) 0 (dev w0) = (p, d')"
    and "p \<noteq> image_start_pos L"
  shows "fst (check_alignment_and_close P L w0) = Return (- 1)"
  using assms by (simp add: check_alignment_and_close_def call_def)

lemma success_calls:
  assumes "write_update_for_bootloader P update update_length bw bh bpp busy_bitmap fail_bitmap
             log_filename (start d) = (Return 0, w)"
  shows "\<exists>pt wr wr2 res lg pos bpos fpos e off boff foff.
     calls w =
       [Mtd_find_partition_by_name (CACHE_NAME P) (Some pt),
        Mtd_write_partition pt (Some wr),
        Mtd_write_data wr (Some (header_bytes (zero_header P))) (header_size P) (header_size P)] @
       res @
       [Mtd_erase_blocks wr 0 pos,
        Mtd_write_data wr update update_length update_length,
        Mtd_erase_blocks wr 0 bpos,
        Mtd_find_write_start wr pos off,
        Log_E ''writing busy bitmap\<newline>'',
        Mtd_write_data wr busy_bitmap (bitmap_length bpp bw bh) (bitmap_length bpp bw bh),
        Log_E ''busy bitmap written\<newline>'',
        Mtd_erase_blocks wr 0 fpos,
        Log_E ''block padded\<newline>'',
        Mtd_find_write_start wr bpos boff,
        Mtd_write_data wr fail_bitmap (bitmap_length bpp bw bh) (bitmap_length bpp bw bh),
        Log_E ''finishing block\<newline>'',
        Mtd_erase_blocks wr 0 e,
        Log_E ''finished block\<newline>'',
        Mtd_find_write_start wr fpos foff,
        Mtd_write_close wr 0,
        Mtd_write_partition pt (Some wr2),
        Mtd_write_data wr2
          (Some (header_bytes
             (final_header P update_length bw bh bpp busy_bitmap fail_bitmap off boff foff)))
          (header_size P) (header_size P)] @
       lg @
       [Mtd_erase_blocks wr2 0 pos,
        Log_E ''closing partition\<newline>'',
        Mtd_write_close wr2 0] \<and>
     (log_filename = None \<longrightarrow> res = [] \<and> lg = [])"
proof -
  from assms obtain L3 w3 where
    fin: "check_alignment_and_close P L3 w3 = (Return 0, w)" and
    r3: "then_do
             (first_pass P update update_length bw bh bpp busy_bitmap fail_bitmap log_filename
                (start d))
             (second_pass P log_filename) = (Inr L3, w3)"
    unfolding write_update_for_bootloader_def
    by (auto split: prod.splits sum.splits dest: both_passes_Inl)
  from r3 obtain L1 w1 where
    fp: "first_pass P update update_length bw bh bpp busy_bitmap fail_bitmap log_filename
           (start d) = (Inr L1, w1)" and
    sp: "second_pass P log_filename L1 w1 = (Inr L3, w3)"
    by (blast dest: then_do_Inr)
  from sp obtain L2 w2 where
    rh: "rewrite_header P L1 w1 = (Inr L2, w2)" and
    wl: "write_log P log_filename L2 w2 = (Inr L3, w3)"
    unfolding second_pass_def by (blast dest: then_do_Inr)
  from first_pass_Inr [OF fp] obtain pt wr res pos bpos fpos e off boff foff where
    c1: "calls w1 = calls (start d) @
       [Mtd_find_partition_by_name (CACHE_NAME P) (Some pt),
        Mtd_write_partition pt (Some wr),
        Mtd_write_data wr (Some (header_bytes (zero_header P))) (header_size P) (header_size P)] @
       res @
       [Mtd_erase_blocks wr 0 pos,
        Mtd_write_data wr update update_length update_length,
        Mtd_erase_blocks wr 0 bpos,
        Mtd_find_write_start wr pos off,
        Log_E ''writing busy bitmap\<newline>'',
        Mtd_write_data wr busy_bitmap (bitmap_length bpp bw bh) (bitmap_length bpp bw bh),
        Log_E ''busy bitmap written\<newline>'',
        Mtd_erase_blocks wr 0 fpos,
        Log_E ''block padded\<newline>'',
        Mtd_find_write_start wr bpos boff,
        Mtd_write_data wr fail_bitmap (bitmap_length bpp bw bh) (bitmap_length bpp bw bh),
        Log_E ''finishing block\<newline>'',
        Mtd_erase_blocks wr 0 e,
        Log_E ''finished block\<newline>'',
        Mtd_find_write_start wr fpos foff,
        Mtd_write_close wr 0]" and
    n1: "log_filename = None \<longrightarrow> res = []" and
    l1: "L1 = \<lparr>part = pt, write_ctx = wr,
          header = final_header P update_length bw bh bpp busy_bitmap fail_bitmap off boff foff,
          image_start_pos = pos, busy_start_pos = bpos, fail_start_pos = fpos\<rparr>"
    by blast
  from rewrite_header_Inr [OF rh] obtain wr2 where
    c2: "calls w2 = calls w1 @
       [Mtd_write_partition (part L1) (Some wr2),
        Mtd_write_data wr2 (Some (header_bytes (header L1))) (header_size P) (header_size P)]" and
    l2: "L2 = L1\<lparr>write_ctx := wr2\<rparr>"
    by blast
  from write_log_Inr [OF wl] obtain lg where
    c3: "calls w3 = calls w2 @ lg" and n3: "log_filename = None \<longrightarrow> lg = []" and l3: "L3 = L2"
    by blast
  note c4 = check_alignment_and_close_0 [OF fin]
  show ?thesis
    apply (rule exI [of _ pt], rule exI [of _ wr], rule exI [of _ wr2])
    apply (rule exI [of _ res], rule exI [of _ lg])
    apply (rule exI [of _ pos], rule exI [of _ bpos], rule exI [of _ fpos], rule exI [of _ e])
    apply (rule exI [of _ off], rule exI [of _ boff], rule exI [of _ foff])
    using c1 n1 l1 c2 l2 c3 n3 l3 c4
    by simp
qed

section \<open>The bitmap length\<close>

lemma ceil_div8: "\<lceil>real_of_int b / 8\<rceil> = (b + 7) div 8"
proof -
  have "\<lceil>real_of_int b / real_of_int 8\<rceil> = - (- b div 8)"
    by (rule ceiling_divide_eq_div)
  also have "\<dots> = (b + 7) div 8" by presburger
  finally show ?thesis by simp
qed

lemma sint_in_range: "- (2 ^ 31) \<le> k \<Longrightarrow> k < 2 ^ 31 \<Longrightarrow> sint (word_of_int k :: word32) = k"
  by (simp add: sint_sbintrunc' signed_take_bit_int_eq_self)

lemma sint_mult_in_range:
  "- (2 ^ 31) \<le> sint a * sint b \<Longrightarrow> sint a * sint b < 2 ^ 31 \<Longrightarrow>
   sint (a * b :: word32) = sint a * sint b"
  by (simp add: sint_word_mult signed_take_bit_int_eq_self)

lemma sint_add7:
  assumes "0 \<le> sint bpp" "sint bpp \<le> 2 ^ 31 - 8"
  shows "sint (bpp + 7 :: word32) = sint bpp + 7"
  using assms by (simp add: sint_word_add signed_take_bit_int_eq_self)

lemma sint_int_div8:
  assumes "0 \<le> sint bpp" "sint bpp \<le> 2 ^ 31 - 8"
  shows "sint (int_div (bpp + 7) 8) = (sint bpp + 7) div 8"
proof -
  have a: "sint (bpp + 7 :: word32) = sint bpp + 7" using assms by (rule sint_add7)
  have "(sint bpp + 7) sdiv 8 = (sint bpp + 7) div 8"
    using assms by (simp add: signed_divide_int_def sgn_if)
  moreover have "- (2 ^ 31) \<le> (sint bpp + 7) div 8" "(sint bpp + 7) div 8 < 2 ^ 31"
    using assms by simp_all
  ultimately show ?thesis
    by (simp add: int_div_def a sint_in_range)
qed

text \<open>
  C8, as amended. For a depth that is not negative, when neither \<^verbatim>\<open>bitmap_bpp + 7\<close> nor the
  two products leave the range of \<^verbatim>\<open>int\<close>, the length computed on line 224 is
  \<open>\<lceil>bpp / 8\<rceil> * width * height\<close>, the ceiling being that of the exact quotient. The depths
  1, 8, 16, 24 and 32 are among them.
\<close>

theorem bitmap_length_ceil:
  assumes "0 \<le> sint bpp" and "sint bpp \<le> 2 ^ 31 - 8"
    and "- (2 ^ 31) \<le> \<lceil>real_of_int (sint bpp) / 8\<rceil> * sint width"
    and "\<lceil>real_of_int (sint bpp) / 8\<rceil> * sint width < 2 ^ 31"
    and "- (2 ^ 31) \<le> \<lceil>real_of_int (sint bpp) / 8\<rceil> * sint width * sint height"
    and "\<lceil>real_of_int (sint bpp) / 8\<rceil> * sint width * sint height < 2 ^ 31"
  shows "sint (bitmap_length bpp width height)
           = \<lceil>real_of_int (sint bpp) / 8\<rceil> * sint width * sint height"
proof -
  let ?c = "(sint bpp + 7) div 8"
  have c: "sint (int_div (bpp + 7) 8) = ?c" using assms(1,2) by (rule sint_int_div8)
  have m1: "sint (int_div (bpp + 7) 8 * width) = ?c * sint width"
    using assms(3,4) unfolding ceil_div8 by (simp add: sint_mult_in_range c)
  have "sint (int_div (bpp + 7) 8 * width * height) = ?c * sint width * sint height"
    using assms(5,6) unfolding ceil_div8 by (simp add: sint_mult_in_range m1)
  then show ?thesis unfolding ceil_div8 by (simp add: bitmap_length_def)
qed

text \<open>The bitmaps of the comment on line 132: 320 by 480 at 16 bits per pixel.\<close>

theorem bitmap_length_ceil_witness:
  "sint (bitmap_length 16 320 480) = \<lceil>real_of_int (sint (16 :: word32)) / 8\<rceil> * sint (320 :: word32) * sint (480 :: word32)
   \<and> sint (bitmap_length 16 320 480) = 307200"
  using bitmap_length_ceil [of 16 320 480] unfolding ceil_div8 by simp

text \<open>
  C8 as stated, for every call, fails: the division of line 224 truncates towards zero, so
  for a depth of -8 the code computes 0 where the ceiling of the quotient is -1.
\<close>

theorem bitmap_length_negative_bpp:
  "sint (bitmap_length (- 8) 1 1)
     \<noteq> \<lceil>real_of_int (sint (- 8 :: word32)) / 8\<rceil> * sint (1 :: word32) * sint (1 :: word32)"
  unfolding ceil_div8 by (simp add: bitmap_length_def int_div_def signed_divide_int_def)

section \<open>Reading and writing the boot message\<close>

text \<open>
  C5. When the partition is found, its sizes are known and the read session opens, a read
  of the three pages that returns anything but \<open>write_size * 3\<close>, so also any smaller
  count with no other error, makes \<^verbatim>\<open>get_bootloader_message\<close> return -1 without storing
  anything in \<^verbatim>\<open>*out\<close>; the session is closed first.
\<close>

theorem short_read_is_failure:
  assumes "mtd_find_partition_by_name P (MISC_NAME P) d = (Some pt, d1)"
    and "mtd_partition_info P pt d1 = ((0, total_size, erase_size, write_size), d2)"
    and "mtd_read_partition P pt d2 = (Some rd, d3)"
    and "mtd_read_data P rd (write_size * 3) d3 = ((r, stored), d4)"
    and "r \<noteq> write_size * 3"
  shows "fst (get_bootloader_message P (start d)) = (Return (- 1), None) \<and>
         calls (snd (get_bootloader_message P (start d))) =
           [Mtd_find_partition_by_name (MISC_NAME P) (Some pt),
            Mtd_partition_info pt 0,
            Mtd_read_partition pt (Some rd),
            Mtd_read_data rd (write_size * 3) r,
            Log_E ''Can't read %s\<newline>(%s)\<newline>'',
            Mtd_read_close rd]"
  using assms
  by (simp add: get_bootloader_message_def call_def start_def MISC_PAGES_def Let_def
      LOGE_def record_event_def call_void_def calls_def)

text \<open>A misc partition of five bytes with pages of four: the read returns 5, not 12.\<close>

theorem short_read_is_failure_witness:
  "fst (get_bootloader_message (fake_platform 4 ''/tmp/recovery.log'')
          (start (blank\<lparr>misc := [1, 2, 3, 4, 5]\<rparr>))) = (Return (- 1), None) \<and>
   calls (snd (get_bootloader_message (fake_platform 4 ''/tmp/recovery.log'')
          (start (blank\<lparr>misc := [1, 2, 3, 4, 5]\<rparr>)))) =
     [Mtd_find_partition_by_name ''misc'' (Some 1),
      Mtd_partition_info 1 0,
      Mtd_read_partition 1 (Some 21),
      Mtd_read_data 21 12 5,
      Log_E ''Can't read %s\<newline>(%s)\<newline>'',
      Mtd_read_close 21]"
  using short_read_is_failure [of "fake_platform 4 ''/tmp/recovery.log''"
      "blank\<lparr>misc := [1, 2, 3, 4, 5]\<rparr>" 1 "blank\<lparr>misc := [1, 2, 3, 4, 5]\<rparr>"
      5 64 4 "blank\<lparr>misc := [1, 2, 3, 4, 5]\<rparr>" 21
      "blank\<lparr>misc := [1, 2, 3, 4, 5], rsession := Some (1, 0)\<rparr>"
      5 "[1, 2, 3, 4, 5]"
      "blank\<lparr>misc := [1, 2, 3, 4, 5], rsession := Some (1, 5)\<rparr>"]
  by (simp add: fake_platform_def fake_find_partition_by_name_def fake_partition_info_def
      fake_read_partition_def fake_read_data_def contents_def blank_def)


text \<open>
  A record of four bytes that holds no zero byte, on the test device: the message is
  written and the session closed, and the \<^verbatim>\<open>%s\<close> of line 120 then reads past the record.
\<close>

lemma command_without_zero_byte:
  "(case set_bootloader_message (fake_platform 4 ''/tmp/recovery.log'')
           [65, 66, 67, 68] (start blank) of
      (r, w) \<Rightarrow> r = Undefined \<and> last (calls w) = Mtd_write_close 11 0)"
  by code_simp



section \<open>The round trip of the boot message on the test platform\<close>

lemma of_nat_eq_word_iff:
  assumes "m \<le> unat (n :: word32)"
  shows "(word_of_nat m = n) = (m = unat n)"
proof
  assume "word_of_nat m = n"
  then have "unat n = m mod 2 ^ 32" by (auto simp: unat_of_nat)
  moreover have "unat n < 2 ^ LENGTH(32)" by (rule unsigned_less)
  then have "m < 2 ^ 32" using assms by simp
  ultimately show "m = unat n" by simp
next
  assume "m = unat n"
  then show "word_of_nat m = n" by simp
qed

lemma three_pages:
  assumes "unat (p :: word32) * 3 < 2 ^ 31"
  shows "unat (p * 3) = unat p * 3" and "p * 3 \<noteq> - 1"
proof -
  show u: "unat (p * 3) = unat p * 3"
    using assms by (simp add: unat_word_ariths)
  have m: "unat (- 1 :: word32) = 4294967295"
    by (simp add: unsigned_minus_1_eq_mask mask_eq_exp_minus_1)
  show "p * 3 \<noteq> - 1"
  proof
    assume "p * 3 = - 1"
    with u m have "unat p * 3 = 4294967295" by simp
    with assms show False by simp
  qed
qed

lemma drop_take_drop: "a \<le> b \<Longrightarrow> drop a (take b m) @ drop b m = drop a m"
proof -
  assume ab: "a \<le> b"
  have "drop a m = drop a (take b m @ drop b m)" by simp
  also have "\<dots> = drop a (take b m) @ drop (a - length (take b m)) (drop b m)"
    by (rule drop_append)
  also have "drop (a - length (take b m)) (drop b m) = drop b m"
    using ab by (cases "b \<le> length m") (simp_all add: min_def)
  finally show ?thesis by simp
qed

lemma fake_set_success:
  assumes "set_bootloader_message (fake_platform k lf) msg (start d) = (Return 0, w)"
    and "unat (page d) * 3 < 2 ^ 31"
  shows "unat (page d) * 3 \<le> length (misc d) \<and>
         k \<le> unat (page d) * 2 \<and> k \<le> length msg \<and>
         misc (dev w) = take (unat (page d)) (misc d) @ take k msg @
                          drop (unat (page d) + k) (misc d) \<and>
         page (dev w) = page d"
  using assms(1) three_pages [OF assms(2)]
  apply (simp add: set_bootloader_message_def fake_platform_def call_def start_def
      fake_find_partition_by_name_def fake_partition_info_def fake_read_partition_def
      fake_read_data_def fake_read_close_def fake_write_partition_def fake_write_data_def
      fake_write_close_def contents_def store_def MISC_PAGES_def MISC_COMMAND_PAGE_def
      call_void_def Let_def LOGE_def LOGI_def record_event_def close_dropped_def memcpy_def
      of_nat_eq_word_iff
      split: if_splits option.splits prod.splits list.splits)
  apply (auto simp: drop_take_drop mult.commute)
  done


lemma fake_get_success:
  assumes "unat (page d) * 3 < 2 ^ 31" and "unat (page d) * 3 \<le> length (misc d)"
    and "k \<le> unat (page d) * 2"
  shows "fst (get_bootloader_message (fake_platform k lf) (start d))
           = (Return 0, Some (take k (drop (unat (page d)) (misc d))))"
  using assms(2,3) three_pages [OF assms(1)]
  by (simp add: get_bootloader_message_def fake_platform_def call_def start_def
      fake_find_partition_by_name_def fake_partition_info_def fake_read_partition_def
      fake_read_data_def fake_read_close_def contents_def MISC_PAGES_def MISC_COMMAND_PAGE_def
      call_void_def Let_def LOGE_def record_event_def of_nat_eq_word_iff min_def
      drop_take mult.commute)

text \<open>
  C4, on the test platform. For a record of the size of the message, on a device whose three
  pages fit in \<^verbatim>\<open>ssize_t\<close>: when \<^verbatim>\<open>set_bootloader_message\<close> returns 0,
  \<^verbatim>\<open>get_bootloader_message\<close> on the resulting device returns 0 and the same record, page 0
  is as it was before the call, and so is every byte from the end of the record on (the
  record starts at page 1, line 97 copies all of it whatever the page size). So page 2 is
  as it was before the call when the record is no larger than a page; a larger record
  runs into page 2.
\<close>

theorem set_then_get_round_trip:
  assumes len: "length msg = k"
    and pages: "unat (page d) * 3 < 2 ^ 31"
    and set: "set_bootloader_message (fake_platform k lf) msg (start d) = (Return 0, w)"
  shows "fst (get_bootloader_message (fake_platform k lf) (start (dev w))) = (Return 0, Some msg) \<and>
         take (unat (page d)) (misc (dev w)) = take (unat (page d)) (misc d) \<and>
         drop (unat (page d) + k) (misc (dev w)) = drop (unat (page d) + k) (misc d) \<and>
         (k \<le> unat (page d) \<longrightarrow>
            take (unat (page d)) (drop (2 * unat (page d)) (misc (dev w)))
              = take (unat (page d)) (drop (2 * unat (page d)) (misc d)))"
proof -
  let ?p = "unat (page d)"
  from fake_set_success [OF set pages] have
    fit: "?p * 3 \<le> length (misc d)" and k2: "k \<le> ?p * 2" and
    m: "misc (dev w) = take ?p (misc d) @ take k msg @ drop (?p + k) (misc d)" and
    pg: "page (dev w) = page d"
    by simp_all
  have lm: "length (misc (dev w)) = length (misc d)"
    using fit k2 len by (simp add: m)
  have "fst (get_bootloader_message (fake_platform k lf) (start (dev w)))
          = (Return 0, Some (take k (drop ?p (misc (dev w)))))"
    using pages fit k2 by (simp add: fake_get_success pg lm)
  moreover have "take k (drop ?p (misc (dev w))) = msg"
    using fit len by (simp add: m)
  moreover have "take ?p (misc (dev w)) = take ?p (misc d)"
    using fit by (simp add: m)
  moreover have "drop (?p + k) (misc (dev w)) = drop (?p + k) (misc d)"
    using fit len by (simp add: m)
  moreover have "k \<le> ?p \<longrightarrow> take ?p (drop (2 * ?p) (misc (dev w))) = take ?p (drop (2 * ?p) (misc d))"
    using fit len by (auto simp: m mult_2)
  ultimately show ?thesis by simp
qed

text \<open>A record of four bytes on the test device, whose pages are four bytes.\<close>

theorem set_then_get_round_trip_witness:
  "length [65, 66, 0, 4 :: byte] = 4 \<and> unat (page blank) * 3 < 2 ^ 31 \<and>
   fst (set_bootloader_message (fake_platform 4 ''/tmp/recovery.log'') [65, 66, 0, 4]
          (start blank)) = Return 0 \<and>
   fst (get_bootloader_message (fake_platform 4 ''/tmp/recovery.log'')
          (start (dev (snd (set_bootloader_message (fake_platform 4 ''/tmp/recovery.log'')
                              [65, 66, 0, 4] (start blank))))))
     = (Return 0, Some [65, 66, 0, 4]) \<and>
   4 \<le> unat (page blank) \<and>
   take 4 (misc (dev (snd (set_bootloader_message (fake_platform 4 ''/tmp/recovery.log'')
                              [65, 66, 0, 4] (start blank))))) = [1, 2, 3, 4] \<and>
   drop 8 (misc (dev (snd (set_bootloader_message (fake_platform 4 ''/tmp/recovery.log'')
                              [65, 66, 0, 4] (start blank)))))
     = [9, 10, 11, 12, 13, 14, 15, 16] \<and>
   take 4 (drop 8 (misc (dev (snd (set_bootloader_message (fake_platform 4 ''/tmp/recovery.log'')
                              [65, 66, 0, 4] (start blank)))))) = [9, 10, 11, 12]"
proof -
  let ?run = "set_bootloader_message (fake_platform 4 ''/tmp/recovery.log'') [65, 66, 0, 4]
                (start blank)"
  have ok: "fst ?run = Return 0" by code_simp
  then have run: "?run = (Return 0, snd ?run)" by (simp add: prod_eq_iff)
  have len: "length [65, 66, 0, 4 :: byte] = 4" by simp
  have pages: "unat (page blank) * 3 < 2 ^ 31" by (simp add: blank_def)
  have pg: "unat (page blank) = 4" by (simp add: blank_def)
  have mb: "misc blank = [1, 2, 3, 4, 5, 6, 7, 8, 9, 10, 11, 12, 13, 14, 15, 16]"
    by code_simp
  from set_then_get_round_trip [OF len pages run] ok len pages show ?thesis
    by (simp add: pg mb)
qed

text \<open>
  A record of eight bytes on the same device, whose pages are four bytes: the call
  returns 0 and the second half of the record has replaced page 2.
\<close>

theorem page_two_overwritten:
  "fst (set_bootloader_message (fake_platform 8 ''/tmp/recovery.log'')
          [65, 66, 0, 4, 5, 6, 7, 8] (start blank)) = Return 0 \<and>
   take 4 (drop 8 (misc blank)) = [9, 10, 11, 12] \<and>
   take 4 (drop 8 (misc (dev (snd (set_bootloader_message (fake_platform 8 ''/tmp/recovery.log'')
                                     [65, 66, 0, 4, 5, 6, 7, 8] (start blank))))))
     = [5, 6, 7, 8]"
  by code_simp

section \<open>The header on the test device during a run\<close>

lemma fake_magic_size [simp]: "UPDATE_MAGIC_SIZE (fake_platform k lf) = 16"
  by (simp add: UPDATE_MAGIC_SIZE_def fake_platform_def ascii_def)

lemma fake_header_size: "header_size (fake_platform k lf) = 60"
  by (simp add: header_size_def sizeof_update_header_def struct_pad_def)

lemma length_le32 [simp]: "length (le32 x) = 4"
  by (simp add: le32_def)

lemma le32_zero: "le32 0 = replicate 4 0"
  by (simp add: le32_def eval_nat_numeral)

lemma zero_header_bytes: "header_bytes (zero_header (fake_platform k lf)) = replicate 60 0"
  by (simp add: header_bytes_def zero_header_def struct_pad_def le32_zero
      replicate_add [symmetric])

lemma round_up_ge: "pos \<le> round_up pos b"
proof (cases "b = 0")
  case True
  then show ?thesis by (simp add: round_up_def)
next
  case False
  have "(pos + b - 1) div b * b = (pos + b - 1) - (pos + b - 1) mod b"
    by (simp add: minus_mod_eq_div_mult)
  moreover have "(pos + b - 1) mod b \<le> b - 1"
    using False by (simp add: less_Suc_eq_le [symmetric])
  ultimately show ?thesis using False by (simp add: round_up_def)
qed

lemma good_write_data: "good d \<Longrightarrow> good (snd (fake_write_data h buf n d))"
  by (auto simp: good_def zero_magic_def past_magic_def fake_write_data_def store_def
      contents_def split: option.splits prod.splits if_splits)

lemma good_erase_blocks: "good d \<Longrightarrow> good (snd (fake_erase_blocks h b d))"
  using round_up_ge
  by (auto simp: good_def zero_magic_def past_magic_def fake_erase_blocks_def
      split: option.splits prod.splits if_splits intro: order_trans)

lemma good_find_write_start: "good d \<Longrightarrow> good (snd (fake_find_write_start h p d))"
  by (simp add: fake_find_write_start_def)

lemma good_write_close: "good d \<Longrightarrow> good (snd (fake_write_close h d))"
  by (auto simp: good_def zero_magic_def past_magic_def fake_write_close_def
      split: option.splits prod.splits if_splits)


lemma fake_ops [simp]:
  "mtd_find_partition_by_name (fake_platform k lf) = fake_find_partition_by_name"
  "mtd_partition_info (fake_platform k lf) = fake_partition_info"
  "mtd_write_partition (fake_platform k lf) = fake_write_partition"
  "mtd_write_data (fake_platform k lf) = fake_write_data"
  "mtd_erase_blocks (fake_platform k lf) = fake_erase_blocks"
  "mtd_find_write_start (fake_platform k lf) = fake_find_write_start"
  "mtd_write_close (fake_platform k lf) = fake_write_close"
  "CACHE_NAME (fake_platform k lf) = ''cache''"
  "UPDATE_MAGIC (fake_platform k lf) = ascii ''MSM-RADIO-UPDATE''"
  "malloc (fake_platform k lf) = fake_malloc"
  "fopen (fake_platform k lf) = fake_fopen"
  "fseek (fake_platform k lf) = fake_fseek lf"
  "fread (fake_platform k lf) = fake_fread lf"
  "fclose (fake_platform k lf) = fake_fclose"
  by (simp_all add: fake_platform_def)

lemma stage_snoc: "stage_after P (es @ [e]) = next_stage P (stage_after P es) e"
  by (simp add: stage_after_def)

lemma magic_by_stage_snoc:
  "magic_by_stage P (tr @ [x]) =
     (magic_by_stage P tr \<and>
      (stage_after P (map fst (tr @ [x])) \<in> {Invalidated, Reopened} \<longrightarrow>
       disk_magic P (snd x) = replicate (UPDATE_MAGIC_SIZE P) 0) \<and>
      (stage_after P (map fst (tr @ [x])) = Installed \<longrightarrow>
       disk_magic P (snd x) = UPDATE_MAGIC P))"
  unfolding magic_by_stage_def
  by (auto simp: less_Suc_eq nth_append)

lemma stays_invalidated:
  "(\<And>p h. e \<noteq> Mtd_write_partition p h) \<Longrightarrow> next_stage P Invalidated e = Invalidated"
  by (cases e) auto

lemma good_zero: "good d \<Longrightarrow> disk_magic (fake_platform k lf) d = replicate 16 0"
  by (simp add: good_def zero_magic_def disk_magic_def)

lemma invalidated_call:
  assumes "invalidated (fake_platform k lf) w"
    and "\<And>d. good d \<Longrightarrow> good (snd (f d))"
    and "\<And>r p h. ev r \<noteq> Mtd_write_partition p h"
  shows "invalidated (fake_platform k lf) (snd (call f ev w))"
proof -
  obtain r d' where f: "f (dev w) = (r, d')" by (cases "f (dev w)")
  from assms(1) have g: "good (dev w)" by (simp add: invalidated_def)
  from assms(2) [OF g] f have g': "good d'" by simp
  from assms(1) g' assms(3) [of r] show ?thesis
    by (simp add: invalidated_def call_def calls_def f magic_by_stage_snoc stage_snoc stays_invalidated
        good_zero)
qed

lemma invalidated_record_event:
  assumes "invalidated (fake_platform k lf) w" and "\<And>p h. e \<noteq> Mtd_write_partition p h"
  shows "invalidated (fake_platform k lf) (record_event e w)"
  using assms
  by (auto simp: invalidated_def record_event_def calls_def magic_by_stage_snoc stage_snoc
      stays_invalidated good_zero)

lemma invalidated_LOGE:
  "invalidated (fake_platform k lf) w \<Longrightarrow> invalidated (fake_platform k lf) (LOGE s w)"
  by (simp add: LOGE_def invalidated_record_event)

lemma invalidated_close_dropped:
  "invalidated (fake_platform k lf) w \<Longrightarrow>
   invalidated (fake_platform k lf) (close_dropped (fake_platform k lf) h w)"
  by (simp add: close_dropped_def invalidated_call good_write_close)

lemmas invalidated_steps =
  invalidated_call invalidated_LOGE invalidated_close_dropped
  good_write_data good_erase_blocks good_find_write_start good_write_close

lemma invalidated_reserve_log_block:
  "invalidated (fake_platform k lf) w0 \<Longrightarrow>
   invalidated (fake_platform k lf) (snd (reserve_log_block (fake_platform k lf) n L w0))"
  by (auto simp: reserve_log_block_def case_prod_beta intro!: invalidated_steps)

lemma invalidated_write_payload:
  "invalidated (fake_platform k lf) w0 \<Longrightarrow>
   invalidated (fake_platform k lf) (snd (write_payload (fake_platform k lf) u ul L w0))"
  by (auto simp: write_payload_def case_prod_beta Let_def intro!: invalidated_steps)

lemma invalidated_write_busy_bitmap:
  "invalidated (fake_platform k lf) w0 \<Longrightarrow>
   invalidated (fake_platform k lf)
     (snd (write_busy_bitmap (fake_platform k lf) bw bh bpp b L w0))"
  by (auto simp: write_busy_bitmap_def case_prod_beta Let_def intro!: invalidated_steps)

lemma invalidated_write_fail_bitmap:
  "invalidated (fake_platform k lf) w0 \<Longrightarrow>
   invalidated (fake_platform k lf)
     (snd (write_fail_bitmap (fake_platform k lf) bw bh bpp b L w0))"
  by (auto simp: write_fail_bitmap_def case_prod_beta Let_def intro!: invalidated_steps)

lemma invalidated_close_first_session:
  "invalidated (fake_platform k lf) w0 \<Longrightarrow>
   invalidated (fake_platform k lf) (snd (close_first_session (fake_platform k lf) L w0))"
  by (auto simp: close_first_session_def case_prod_beta intro!: invalidated_steps)


lemma fst_call: "fst (call f ev w) = fst (f (dev w))"
  by (simp add: call_def split: prod.splits)

lemma calls_snd_call: "calls (snd (call f ev w)) = calls w @ [ev (fst (f (dev w)))]"
  by (simp add: call_def calls_def split: prod.splits)

lemma trace_snd_call:
  "trace (snd (call f ev w)) = trace w @ [(ev (fst (f (dev w))), snd (f (dev w)))]"
  by (simp add: call_def split: prod.splits)

lemma next_stage_Before: "next_stage P s e = Before \<Longrightarrow> s = Before"
  by (cases s; cases e) (auto split: if_splits)

lemma before_prefix: "stage_after P (es @ es') = Before \<Longrightarrow> stage_after P es = Before"
proof (induction es' rule: rev_induct)
  case Nil
  then show ?case by simp
next
  case (snoc e es')
  from snoc.prems have "next_stage P (stage_after P (es @ es')) e = Before"
    by (simp add: stage_snoc [symmetric])
  then have "stage_after P (es @ es') = Before" by (rule next_stage_Before)
  then show ?case by (rule snoc.IH)
qed

lemma before_magic_by_stage:
  assumes "stage_after P (map fst tr) = Before"
  shows "magic_by_stage P tr"
proof -
  have "stage_after P (take (Suc i) (map fst tr)) = Before" for i
    using assms before_prefix [of P "take (Suc i) (map fst tr)" "drop (Suc i) (map fst tr)"]
    by simp
  then show ?thesis by (simp add: magic_by_stage_def)
qed

lemma next_stage_Installed [simp]: "next_stage P Installed e = Installed"
  by (cases e) auto

lemma next_stage_Rewrite_failed [simp]: "next_stage P Rewrite_failed e = Rewrite_failed"
  by (cases e) auto

text \<open>The operations of the test device leave an installed magic in place.\<close>

lemma length_ascii [simp]: "length (ascii cs) = length cs"
  by (simp add: ascii_def)

lemma settled_length: "settled d \<Longrightarrow> 16 \<le> length (cache d)"
proof -
  assume "settled d"
  then have "length (take 16 (cache d)) = 16" by (simp add: settled_def)
  then show ?thesis by simp
qed

lemma settled_magic: "settled d \<Longrightarrow> disk_magic (fake_platform k lf) d = ascii ''MSM-RADIO-UPDATE''"
  by (simp add: settled_def disk_magic_def)

lemma settled_write_data: "settled d \<Longrightarrow> settled (snd (fake_write_data h buf n d))"
  using settled_length [of d]
  by (auto simp: settled_def past_magic_def fake_write_data_def store_def
      contents_def split: option.splits prod.splits if_splits)

lemma settled_erase_blocks: "settled d \<Longrightarrow> settled (snd (fake_erase_blocks h b d))"
  using round_up_ge
  by (auto simp: settled_def past_magic_def fake_erase_blocks_def
      split: option.splits prod.splits if_splits intro: order_trans)

lemma settled_write_close: "settled d \<Longrightarrow> settled (snd (fake_write_close h d))"
  by (auto simp: settled_def past_magic_def fake_write_close_def
      split: option.splits prod.splits if_splits)

lemma settled_partition_info: "settled d \<Longrightarrow> settled (snd (fake_partition_info p d))"
  by (simp add: fake_partition_info_def)

lemma settled_malloc: "settled d \<Longrightarrow> settled (snd (fake_malloc n d))"
  by (simp add: fake_malloc_def)

lemma settled_fopen: "settled d \<Longrightarrow> settled (snd (fake_fopen name d))"
  by (auto simp: fake_fopen_def settled_def past_magic_def split: option.splits)

lemma settled_fseek: "settled d \<Longrightarrow> settled (fake_fseek name f off d)"
  by (auto simp: fake_fseek_def settled_def past_magic_def split: option.splits)

lemma settled_fread: "settled d \<Longrightarrow> settled (snd (fake_fread name f n d))"
  by (auto simp: fake_fread_def settled_def past_magic_def split: option.splits)

lemma settled_fclose: "settled d \<Longrightarrow> settled (fake_fclose f d)"
  by (simp add: fake_fclose_def)

lemma rewritten_call:
  assumes "rewritten (fake_platform k lf) w"
    and "\<And>d. settled d \<Longrightarrow> settled (snd (f d))"
  shows "rewritten (fake_platform k lf) (snd (call f ev w))"
proof -
  obtain r d' where f: "f (dev w) = (r, d')" by (cases "f (dev w)")
  from assms(2) [of "dev w"] f have s: "settled (dev w) \<Longrightarrow> settled d'" by simp
  from assms(1) s show ?thesis
    by (auto simp: rewritten_def call_def calls_def f magic_by_stage_snoc stage_snoc
        settled_magic)
qed

lemma rewritten_call_void:
  assumes "rewritten (fake_platform k lf) w"
    and "\<And>d. settled d \<Longrightarrow> settled (f d)"
  shows "rewritten (fake_platform k lf) (call_void f e w)"
  using assms(1) assms(2) [of "dev w"]
  by (auto simp: rewritten_def call_void_def Let_def calls_def magic_by_stage_snoc stage_snoc
      settled_magic)

lemma rewritten_record_event:
  "rewritten (fake_platform k lf) w \<Longrightarrow> rewritten (fake_platform k lf) (record_event e w)"
  by (auto simp: rewritten_def record_event_def calls_def magic_by_stage_snoc stage_snoc
      settled_magic)

lemma rewritten_LOGE:
  "rewritten (fake_platform k lf) w \<Longrightarrow> rewritten (fake_platform k lf) (LOGE s w)"
  by (simp add: LOGE_def rewritten_record_event)

lemma rewritten_LOGI:
  "rewritten (fake_platform k lf) w \<Longrightarrow> rewritten (fake_platform k lf) (LOGI s as w)"
  by (simp add: LOGI_def rewritten_record_event)

lemma rewritten_close_dropped:
  "rewritten (fake_platform k lf) w \<Longrightarrow>
   rewritten (fake_platform k lf) (close_dropped (fake_platform k lf) h w)"
  by (simp add: close_dropped_def rewritten_call settled_write_close)

lemmas rewritten_steps =
  rewritten_call rewritten_call_void rewritten_record_event rewritten_LOGE rewritten_LOGI
  rewritten_close_dropped
  settled_write_data settled_erase_blocks settled_write_close settled_partition_info
  settled_malloc settled_fopen settled_fseek settled_fread settled_fclose

lemma rewritten_write_log:
  "rewritten (fake_platform k lf) w0 \<Longrightarrow>
   rewritten (fake_platform k lf) (snd (write_log (fake_platform k lf) n L w0))"
  by (auto simp: write_log_def case_prod_beta Let_def split: option.splits
      intro!: rewritten_steps)

lemma rewritten_check_alignment_and_close:
  "rewritten (fake_platform k lf) w0 \<Longrightarrow>
   rewritten (fake_platform k lf)
     (snd (check_alignment_and_close (fake_platform k lf) L w0))"
  by (auto simp: check_alignment_and_close_def case_prod_beta intro!: rewritten_steps)


lemma call_eval: "call f ev w = (fst (f (dev w)),
    \<lparr>dev = snd (f (dev w)), trace = trace w @ [(ev (fst (f (dev w))), snd (f (dev w)))]\<rparr>)"
  by (simp add: call_def split: prod.splits)

lemma start_steps:
  "case then_do (open_cache (fake_platform k lf) (start d))
          (write_zero_header (fake_platform k lf)) of
     (Inl r, w) \<Rightarrow> stage_after (fake_platform k lf) (calls w) = Before
   | (Inr L, w) \<Rightarrow> invalidated (fake_platform k lf) w"
  apply (simp add: then_do_def open_cache_def write_zero_header_def call_eval start_def
      fake_find_partition_by_name_def fake_write_partition_def fake_write_data_def
      fake_write_close_def
      zero_header_bytes fake_header_size contents_def store_def LOGE_def record_event_def
      close_dropped_def calls_def stage_after_def invalidated_def good_def zero_magic_def
      past_magic_def magic_by_stage_def disk_magic_def less_Suc_eq
      split: option.splits if_splits)
  done


lemma continues_refl [simp]: "continues w w"
  by (simp add: continues_def)

lemma continues_call: "continues w0 w \<Longrightarrow> continues w0 (snd (call f ev w))"
  by (auto simp: continues_def call_eval)

lemma continues_call_void: "continues w0 w \<Longrightarrow> continues w0 (call_void f e w)"
  by (auto simp: continues_def call_void_def Let_def)

lemma continues_record_event: "continues w0 w \<Longrightarrow> continues w0 (record_event e w)"
  by (auto simp: continues_def record_event_def)

lemma continues_LOGE: "continues w0 w \<Longrightarrow> continues w0 (LOGE s w)"
  by (simp add: LOGE_def continues_record_event)

lemma continues_LOGI: "continues w0 w \<Longrightarrow> continues w0 (LOGI s as w)"
  by (simp add: LOGI_def continues_record_event)

lemma continues_close_dropped: "continues w0 w \<Longrightarrow> continues w0 (close_dropped P h w)"
  by (simp add: close_dropped_def continues_call)

lemmas continues_steps =
  continues_call continues_call_void continues_record_event continues_LOGE continues_LOGI
  continues_close_dropped

lemma continues_write_log: "continues w0 (snd (write_log P n L w0))"
  by (auto simp: write_log_def case_prod_beta Let_def split: option.splits
      intro!: continues_steps)

lemma continues_check_alignment_and_close:
  "continues w0 (snd (check_alignment_and_close P L w0))"
  by (auto simp: check_alignment_and_close_def case_prod_beta intro!: continues_steps)

text \<open>
  The header with the magic, written at the start of the cache partition: when the write
  returns the size of the header, the device holds the magic.
\<close>

lemma settled_header_write:
  assumes "fst (fake_write_data 12 (Some hb) 60 (d\<lparr>wsession := Some (2, 0)\<rparr>)) = 60"
    and "take 16 hb = ascii ''MSM-RADIO-UPDATE''"
  shows "settled (snd (fake_write_data 12 (Some hb) 60 (d\<lparr>wsession := Some (2, 0)\<rparr>)))"
  using assms
  by (auto simp: settled_def past_magic_def fake_write_data_def store_def contents_def
      split: if_splits)

lemma rewritten_rewrite_header:
  assumes "invalidated (fake_platform k lf) w0"
    and pt: "part L = 2"
    and hb: "take 16 (header_bytes (header L)) = ascii ''MSM-RADIO-UPDATE''"
  shows "rewritten (fake_platform k lf) (snd (rewrite_header (fake_platform k lf) L w0))"
proof -
  let ?P = "fake_platform k lf"
  let ?w1 = "snd (call (fake_write_partition 2) (Mtd_write_partition 2) w0)"
  let ?f = "fake_write_data 12 (Some (header_bytes (header L))) 60"
  let ?w2 = "snd (call ?f (Mtd_write_data 12 (Some (header_bytes (header L))) 60) ?w1)"
  from assms(1) have j: "magic_by_stage ?P (trace w0)"
    and st: "stage_after ?P (map fst (trace w0)) = Invalidated"
    and g: "good (dev w0)"
    by (simp_all add: invalidated_def calls_def)
  have j1: "magic_by_stage ?P (trace ?w1)"
    and s1: "stage_after ?P (map fst (trace ?w1)) = Reopened"
    and d1: "dev ?w1 = (dev w0)\<lparr>wsession := Some (2, 0)\<rparr>"
    using j st g
    by (simp_all add: call_eval magic_by_stage_snoc stage_snoc fake_write_partition_def
        disk_magic_def good_def zero_magic_def)
  have t2: "trace ?w2 = trace ?w1 @
      [(Mtd_write_data 12 (Some (header_bytes (header L))) 60 (fst (?f (dev ?w1))),
        snd (?f (dev ?w1)))]"
    by (rule trace_snd_call)
  have d2: "dev ?w2 = snd (?f (dev ?w1))"
    by (simp add: call_eval)
  have ok: "fst (?f (dev ?w1)) = 60 \<Longrightarrow> settled (snd (?f (dev ?w1)))"
    using settled_header_write [OF _ hb, of "dev w0"] by (simp add: d1)
  have r2: "rewritten ?P ?w2"
    unfolding rewritten_def calls_def t2 magic_by_stage_snoc d2
    using j1 s1 ok by (auto simp: stage_snoc settled_magic)
  have r3: "rewritten ?P
      (close_dropped ?P 12 (LOGE ''Can't rewrite header to %s\<newline>(%s)\<newline>'' ?w2))"
    by (rule rewritten_close_dropped, rule rewritten_LOGE, rule r2)
  have "snd (rewrite_header ?P L w0) = ?w2 \<or>
      snd (rewrite_header ?P L w0) =
        close_dropped ?P 12 (LOGE ''Can't rewrite header to %s\<newline>(%s)\<newline>'' ?w2)"
    by (simp add: rewrite_header_def case_prod_beta fake_header_size fst_call
        fake_write_partition_def pt)
  with r2 r3 show ?thesis
    by (elim disjE) simp_all
qed


lemma on_course_then_do:
  assumes "on_course P x" and "\<And>a w. invalidated P w \<Longrightarrow> invalidated P (snd (f a w))"
  shows "on_course P (then_do x f)"
proof (cases x)
  case (Pair y w)
  show ?thesis
  proof (cases y)
    case (Inl r)
    with Pair assms(1) show ?thesis by (simp add: then_do_def on_course_def)
  next
    case (Inr a)
    with Pair assms(1) have "invalidated P w" by (simp add: on_course_def)
    then have "invalidated P (snd (f a w))" by (rule assms(2))
    then have "on_course P (f a w)"
      by (cases "f a w") (auto simp: on_course_def split: sum.splits)
    with Pair Inr show ?thesis by (simp add: then_do_def)
  qed
qed

lemma on_course_first_pass:
  "on_course (fake_platform k lf)
     (first_pass (fake_platform k lf) u ul bw bh bpp b f n (start d))"
proof -
  have "on_course (fake_platform k lf)
          (then_do (open_cache (fake_platform k lf) (start d))
             (write_zero_header (fake_platform k lf)))"
    using start_steps [of k lf d]
    by (simp add: on_course_def split: prod.splits sum.splits)
  then have "on_course (fake_platform k lf)
          (then_do (then_do (open_cache (fake_platform k lf) (start d))
             (write_zero_header (fake_platform k lf)))
             (reserve_log_block (fake_platform k lf) n))"
    by (rule on_course_then_do) (rule invalidated_reserve_log_block)
  then have "on_course (fake_platform k lf)
          (then_do (then_do (then_do (open_cache (fake_platform k lf) (start d))
             (write_zero_header (fake_platform k lf)))
             (reserve_log_block (fake_platform k lf) n))
             (write_payload (fake_platform k lf) u ul))"
    by (rule on_course_then_do) (rule invalidated_write_payload)
  then have "on_course (fake_platform k lf)
          (then_do (then_do (then_do (then_do (open_cache (fake_platform k lf) (start d))
             (write_zero_header (fake_platform k lf)))
             (reserve_log_block (fake_platform k lf) n))
             (write_payload (fake_platform k lf) u ul))
             (write_busy_bitmap (fake_platform k lf) bw bh bpp b))"
    by (rule on_course_then_do) (rule invalidated_write_busy_bitmap)
  then have "on_course (fake_platform k lf)
          (then_do (then_do (then_do (then_do (then_do
             (open_cache (fake_platform k lf) (start d))
             (write_zero_header (fake_platform k lf)))
             (reserve_log_block (fake_platform k lf) n))
             (write_payload (fake_platform k lf) u ul))
             (write_busy_bitmap (fake_platform k lf) bw bh bpp b))
             (write_fail_bitmap (fake_platform k lf) bw bh bpp f))"
    by (rule on_course_then_do) (rule invalidated_write_fail_bitmap)
  then show ?thesis
    unfolding first_pass_def
    by (rule on_course_then_do) (rule invalidated_close_first_session)
qed

lemma invalidated_magic_by_stage: "invalidated P w \<Longrightarrow> magic_by_stage P (trace w)"
  by (simp add: invalidated_def)

lemma on_course_magic_by_stage:
  "on_course P (x, w) \<Longrightarrow> magic_by_stage P (trace w)"
  by (auto simp: on_course_def calls_def split: sum.splits intro: before_magic_by_stage invalidated_magic_by_stage)

lemma run_cases:
  assumes "write_update_for_bootloader P u ul bw bh bpp b f n w0 = (res, w)"
  shows "(\<exists>r. first_pass P u ul bw bh bpp b f n w0 = (Inl r, w)) \<or>
         (\<exists>L1 w1. first_pass P u ul bw bh bpp b f n w0 = (Inr L1, w1) \<and>
            continues (snd (rewrite_header P L1 w1)) w)"
proof -
  obtain x1 w1 where fp: "first_pass P u ul bw bh bpp b f n w0 = (x1, w1)"
    by (cases "first_pass P u ul bw bh bpp b f n w0")
  show ?thesis
  proof (cases x1)
    case (Inl r)
    with assms fp show ?thesis
      by (simp add: write_update_for_bootloader_def then_do_def)
  next
    case (Inr L1)
    obtain x2 w2 where rh: "rewrite_header P L1 w1 = (x2, w2)"
      by (cases "rewrite_header P L1 w1")
    have "continues w2 w"
    proof (cases x2)
      case (Inl r)
      with assms fp rh \<open>x1 = Inr L1\<close> show ?thesis
        by (simp add: write_update_for_bootloader_def then_do_def second_pass_def)
    next
      case (Inr L2)
      obtain x3 w3 where wl: "write_log P n L2 w2 = (x3, w3)"
        by (cases "write_log P n L2 w2")
      have c3: "continues w2 w3" using continues_write_log [of w2 P n L2] wl by simp
      show ?thesis
      proof (cases x3)
        case (Inl r)
        with assms fp rh wl \<open>x1 = Inr L1\<close> \<open>x2 = Inr L2\<close> c3 show ?thesis
          by (simp add: write_update_for_bootloader_def then_do_def second_pass_def)
      next
        case (Inr L3)
        with assms fp rh wl \<open>x1 = Inr L1\<close> \<open>x2 = Inr L2\<close>
        have "w = snd (check_alignment_and_close P L3 w3)"
          by (simp add: write_update_for_bootloader_def then_do_def second_pass_def)
        with continues_check_alignment_and_close [of w3 P L3] c3 show ?thesis
          by (auto simp: continues_def)
      qed
    qed
    with fp rh \<open>x1 = Inr L1\<close> show ?thesis by simp
  qed
qed

lemma fake_open_cache:
  "fst (open_cache (fake_platform k lf) w0) = Inr (pt, wr) \<Longrightarrow> pt = 2"
  by (simp add: open_cache_def call_eval fake_find_partition_by_name_def
      fake_write_partition_def)

lemma header_bytes_magic: "length (MAGIC h) = 16 \<Longrightarrow> take 16 (header_bytes h) = MAGIC h"
  by (simp add: header_bytes_def)

lemma run_rewritten:
  assumes run: "write_update_for_bootloader (fake_platform k lf) u ul bw bh bpp b f n (start d)
             = (res, w)"
    and fp: "first_pass (fake_platform k lf) u ul bw bh bpp b f n (start d) = (Inr L1, w1)"
  shows "rewritten (fake_platform k lf) w"
proof -
  let ?P = "fake_platform k lf"
  from on_course_first_pass [of k lf u ul bw bh bpp b f n d] fp
  have inv: "invalidated ?P w1" by (simp add: on_course_def)
  from first_pass_Inr [OF fp] obtain pt wr off boff foff pos bpos fpos where
    l1: "L1 = \<lparr>part = pt, write_ctx = wr,
          header = final_header ?P ul bw bh bpp b f off boff foff,
          image_start_pos = pos, busy_start_pos = bpos, fail_start_pos = fpos\<rparr>" and
    oc: "fst (open_cache ?P (start d)) = Inr (pt, wr)"
    by blast
  from fake_open_cache [OF oc] l1 have pt: "part L1 = 2" by simp
  have hb: "take 16 (header_bytes (header L1)) = ascii ''MSM-RADIO-UPDATE''"
    by (simp add: l1 header_bytes_magic final_header_def)
  obtain x2 w2 where rh: "rewrite_header ?P L1 w1 = (x2, w2)"
    by (cases "rewrite_header ?P L1 w1")
  from rewritten_rewrite_header [OF inv pt hb] rh have r2: "rewritten ?P w2" by simp
  show ?thesis
  proof (cases x2)
    case (Inl r)
    with run fp rh r2 show ?thesis
      by (simp add: write_update_for_bootloader_def then_do_def second_pass_def)
  next
    case (Inr L2)
    obtain x3 w3 where wl: "write_log ?P n L2 w2 = (x3, w3)"
      by (cases "write_log ?P n L2 w2")
    from rewritten_write_log [OF r2, of n L2] wl have r3: "rewritten ?P w3" by simp
    show ?thesis
    proof (cases x3)
      case (Inl r)
      with run fp rh wl \<open>x2 = Inr L2\<close> r3 show ?thesis
        by (simp add: write_update_for_bootloader_def then_do_def second_pass_def)
    next
      case (Inr L3)
      with run fp rh wl \<open>x2 = Inr L2\<close>
      have "w = snd (check_alignment_and_close ?P L3 w3)"
        by (simp add: write_update_for_bootloader_def then_do_def second_pass_def)
      with rewritten_check_alignment_and_close [OF r3, of L3] show ?thesis by simp
    qed
  qed
qed

lemma run_magic:
  assumes "write_update_for_bootloader (fake_platform k lf) u ul bw bh bpp b f n (start d)
             = (res, w)"
  shows "magic_by_stage (fake_platform k lf) (trace w) \<and>
         (stage_after (fake_platform k lf) (calls w) = Installed \<longrightarrow>
            disk_magic (fake_platform k lf) (dev w) = UPDATE_MAGIC (fake_platform k lf))"
  using run_cases [OF assms]
proof (elim disjE exE conjE)
  fix r
  assume fp: "first_pass (fake_platform k lf) u ul bw bh bpp b f n (start d) = (Inl r, w)"
  with on_course_first_pass [of k lf u ul bw bh bpp b f n d]
  have oc: "on_course (fake_platform k lf) (Inl r :: c_result + locals, w)" by simp
  then have "magic_by_stage (fake_platform k lf) (trace w)"
    by (rule on_course_magic_by_stage)
  moreover from oc have "stage_after (fake_platform k lf) (calls w) \<noteq> Installed"
    by (auto simp: on_course_def invalidated_def)
  ultimately show ?thesis by simp
next
  fix L1 w1
  assume fp: "first_pass (fake_platform k lf) u ul bw bh bpp b f n (start d) = (Inr L1, w1)"
  from run_rewritten [OF assms fp] show ?thesis
    by (auto simp: rewritten_def settled_magic)
qed


lemma continues_calls: "continues w0 w \<Longrightarrow> \<exists>es. calls w = calls w0 @ es"
  by (auto simp: continues_def calls_def)

lemma fake_rewrite_header_calls:
  "\<exists>r tl. calls (snd (rewrite_header (fake_platform k lf) L w0)) =
     calls w0 @
     [Mtd_write_partition (part L) (Some (10 + part L)),
      Mtd_write_data (10 + part L) (Some (header_bytes (header L)))
        (header_size (fake_platform k lf)) r] @ tl"
  by (simp add: rewrite_header_def case_prod_beta fst_call calls_snd_call
      fake_write_partition_def)

lemma final_header_magic [simp]:
  "MAGIC (final_header P ul bw bh bpp b f off boff foff) = UPDATE_MAGIC P"
  by (simp add: final_header_def)

lemma run_order:
  assumes run: "write_update_for_bootloader (fake_platform k lf) update update_length bw bh bpp
             busy_bitmap fail_bitmap log_filename (start d) = (res, w)"
    and fin: "stage_after (fake_platform k lf) (calls w) \<in> {Installed, Rewrite_failed}"
  shows "\<exists>pt wr wr2 hdr r a b c e rest.
     calls w =
       a @ [Mtd_write_data wr update update_length update_length] @
       b @ [Mtd_write_data wr busy_bitmap (bitmap_length bpp bw bh) (bitmap_length bpp bw bh)] @
       c @ [Mtd_write_data wr fail_bitmap (bitmap_length bpp bw bh) (bitmap_length bpp bw bh)] @
       e @ [Mtd_write_close wr 0,
            Mtd_write_partition pt (Some wr2),
            Mtd_write_data wr2 (Some (header_bytes hdr)) (header_size (fake_platform k lf)) r] @
       rest \<and>
     MAGIC hdr = UPDATE_MAGIC (fake_platform k lf)"
  using run_cases [OF run]
proof (elim disjE exE conjE)
  fix r
  assume "first_pass (fake_platform k lf) update update_length bw bh bpp busy_bitmap
            fail_bitmap log_filename (start d) = (Inl r, w)"
  with on_course_first_pass [of k lf update update_length bw bh bpp busy_bitmap fail_bitmap
      log_filename d] fin
  show ?thesis by (auto simp: on_course_def invalidated_def)
next
  fix L1 w1
  let ?P = "fake_platform k lf"
  assume fp: "first_pass ?P update update_length bw bh bpp busy_bitmap
            fail_bitmap log_filename (start d) = (Inr L1, w1)"
    and c: "continues (snd (rewrite_header ?P L1 w1)) w"
  from first_pass_Inr [OF fp] obtain pt wr res pos bpos fpos e off boff foff where
    c1: "calls w1 = calls (start d) @
       [Mtd_find_partition_by_name (CACHE_NAME ?P) (Some pt),
        Mtd_write_partition pt (Some wr),
        Mtd_write_data wr (Some (header_bytes (zero_header ?P))) (header_size ?P)
          (header_size ?P)] @
       res @
       [Mtd_erase_blocks wr 0 pos,
        Mtd_write_data wr update update_length update_length,
        Mtd_erase_blocks wr 0 bpos,
        Mtd_find_write_start wr pos off,
        Log_E ''writing busy bitmap\<newline>'',
        Mtd_write_data wr busy_bitmap (bitmap_length bpp bw bh) (bitmap_length bpp bw bh),
        Log_E ''busy bitmap written\<newline>'',
        Mtd_erase_blocks wr 0 fpos,
        Log_E ''block padded\<newline>'',
        Mtd_find_write_start wr bpos boff,
        Mtd_write_data wr fail_bitmap (bitmap_length bpp bw bh) (bitmap_length bpp bw bh),
        Log_E ''finishing block\<newline>'',
        Mtd_erase_blocks wr 0 e,
        Log_E ''finished block\<newline>'',
        Mtd_find_write_start wr fpos foff,
        Mtd_write_close wr 0]" and
    l1: "L1 = \<lparr>part = pt, write_ctx = wr,
          header = final_header ?P update_length bw bh bpp busy_bitmap fail_bitmap off boff foff,
          image_start_pos = pos, busy_start_pos = bpos, fail_start_pos = fpos\<rparr>"
    by blast
  from fake_rewrite_header_calls [of k lf L1 w1] obtain r tl where
    c2: "calls (snd (rewrite_header ?P L1 w1)) =
     calls w1 @
     [Mtd_write_partition (part L1) (Some (10 + part L1)),
      Mtd_write_data (10 + part L1) (Some (header_bytes (header L1))) (header_size ?P) r] @ tl"
    by blast
  from continues_calls [OF c] obtain es where
    c3: "calls w = calls (snd (rewrite_header ?P L1 w1)) @ es"
    by blast
  have "calls w =
       ([Mtd_find_partition_by_name (CACHE_NAME ?P) (Some pt),
         Mtd_write_partition pt (Some wr),
         Mtd_write_data wr (Some (header_bytes (zero_header ?P))) (header_size ?P)
           (header_size ?P)] @ res @ [Mtd_erase_blocks wr 0 pos]) @
       [Mtd_write_data wr update update_length update_length] @
       [Mtd_erase_blocks wr 0 bpos,
        Mtd_find_write_start wr pos off,
        Log_E ''writing busy bitmap\<newline>''] @
       [Mtd_write_data wr busy_bitmap (bitmap_length bpp bw bh) (bitmap_length bpp bw bh)] @
       [Log_E ''busy bitmap written\<newline>'',
        Mtd_erase_blocks wr 0 fpos,
        Log_E ''block padded\<newline>'',
        Mtd_find_write_start wr bpos boff] @
       [Mtd_write_data wr fail_bitmap (bitmap_length bpp bw bh) (bitmap_length bpp bw bh)] @
       [Log_E ''finishing block\<newline>'',
        Mtd_erase_blocks wr 0 e,
        Log_E ''finished block\<newline>'',
        Mtd_find_write_start wr fpos foff] @
       [Mtd_write_close wr 0,
        Mtd_write_partition pt (Some (10 + pt)),
        Mtd_write_data (10 + pt)
          (Some (header_bytes
            (final_header ?P update_length bw bh bpp busy_bitmap fail_bitmap off boff foff)))
          (header_size ?P) r] @
       (tl @ es) \<and>
     MAGIC (final_header ?P update_length bw bh bpp busy_bitmap fail_bitmap off boff foff)
       = UPDATE_MAGIC ?P"
    using c1 c2 c3 l1 by simp
  then show ?thesis by blast
qed

text \<open>
  C1, as amended, on the test platform. In every run:

  \<^item> at every point from the write of the zero header that returned the size of the header
    up to the write that follows the reopening of the partition, the magic on the device
    is zero;

  \<^item> from the point where that write, of the header with the magic (line 266), has
    returned the size of the header, the magic on the device is the magic of an update,
    at every later point of the run and when the function returns, whatever it returns;

  \<^item> when that write has been issued, the writes of the payload and of both bitmaps had
    each returned the length they were asked for and the close of the first session had
    returned 0, in this order, right before the partition was opened again.

  The log step, the alignment check and the last close come after the write of the
  header: the function can still return -1 with the magic on the device.
\<close>

theorem header_invalid_until_rewritten:
  assumes run: "write_update_for_bootloader (fake_platform k lf) update update_length bw bh bpp
             busy_bitmap fail_bitmap log_filename (start d) = (res, w)"
  shows "(\<forall>i < length (trace w).
            (stage_after (fake_platform k lf) (take (Suc i) (calls w))
               \<in> {Invalidated, Reopened} \<longrightarrow>
             disk_magic (fake_platform k lf) (snd (trace w ! i)) = replicate 16 0) \<and>
            (stage_after (fake_platform k lf) (take (Suc i) (calls w)) = Installed \<longrightarrow>
             disk_magic (fake_platform k lf) (snd (trace w ! i))
               = UPDATE_MAGIC (fake_platform k lf))) \<and>
         (stage_after (fake_platform k lf) (calls w) = Installed \<longrightarrow>
            disk_magic (fake_platform k lf) (dev w) = UPDATE_MAGIC (fake_platform k lf)) \<and>
         (stage_after (fake_platform k lf) (calls w) \<in> {Installed, Rewrite_failed} \<longrightarrow>
            (\<exists>pt wr wr2 hdr r a b c e rest.
               calls w =
                 a @ [Mtd_write_data wr update update_length update_length] @
                 b @ [Mtd_write_data wr busy_bitmap (bitmap_length bpp bw bh)
                        (bitmap_length bpp bw bh)] @
                 c @ [Mtd_write_data wr fail_bitmap (bitmap_length bpp bw bh)
                        (bitmap_length bpp bw bh)] @
                 e @ [Mtd_write_close wr 0,
                      Mtd_write_partition pt (Some wr2),
                      Mtd_write_data wr2 (Some (header_bytes hdr))
                        (header_size (fake_platform k lf)) r] @
                 rest \<and>
               MAGIC hdr = UPDATE_MAGIC (fake_platform k lf)))"
proof -
  from run_magic [OF run] have
    m: "magic_by_stage (fake_platform k lf) (trace w)" and
    e: "stage_after (fake_platform k lf) (calls w) = Installed \<longrightarrow>
          disk_magic (fake_platform k lf) (dev w) = UPDATE_MAGIC (fake_platform k lf)"
    by simp_all
  from m have "\<forall>i < length (trace w).
      (stage_after (fake_platform k lf) (take (Suc i) (calls w)) \<in> {Invalidated, Reopened} \<longrightarrow>
       disk_magic (fake_platform k lf) (snd (trace w ! i)) = replicate 16 0) \<and>
      (stage_after (fake_platform k lf) (take (Suc i) (calls w)) = Installed \<longrightarrow>
       disk_magic (fake_platform k lf) (snd (trace w ! i))
         = UPDATE_MAGIC (fake_platform k lf))"
    by (simp add: magic_by_stage_def calls_def)
  moreover note e
  moreover have "stage_after (fake_platform k lf) (calls w) \<in> {Installed, Rewrite_failed} \<longrightarrow>
      (\<exists>pt wr wr2 hdr r a b c e rest.
         calls w =
           a @ [Mtd_write_data wr update update_length update_length] @
           b @ [Mtd_write_data wr busy_bitmap (bitmap_length bpp bw bh)
                  (bitmap_length bpp bw bh)] @
           c @ [Mtd_write_data wr fail_bitmap (bitmap_length bpp bw bh)
                  (bitmap_length bpp bw bh)] @
           e @ [Mtd_write_close wr 0,
                Mtd_write_partition pt (Some wr2),
                Mtd_write_data wr2 (Some (header_bytes hdr))
                  (header_size (fake_platform k lf)) r] @
           rest \<and>
         MAGIC hdr = UPDATE_MAGIC (fake_platform k lf))"
    using run_order [OF run] by blast
  ultimately show ?thesis by (intro conjI)
qed

text \<open>
  Two runs. On a device that holds an earlier valid header, with no log: the magic is
  still there after the partition is opened (point 1), it is zero when the first session
  is closed (point 18) and when the partition has been opened again (point 19), it is the
  magic of an update once the header is written (point 20) and when the function returns
  0. On a device whose seventh write fails, the write of the log block: the header is
  installed (point 22), the function returns -1 and the device holds the magic.
\<close>

theorem header_invalid_until_rewritten_witness:
  "(case write_update_for_bootloader (fake_platform 4 ''/tmp/recovery.log'')
           (Some (ascii ''payload'')) 7 1 1 16 (Some [1, 2]) (Some [3, 4]) None
           (start (blank\<lparr>cache := ascii ''MSM-RADIO-UPDATE'' @ replicate 368 7\<rparr>)) of
      (r, w) \<Rightarrow>
        disk_magic (fake_platform 4 ''/tmp/recovery.log'') (snd (trace w ! 1))
          = ascii ''MSM-RADIO-UPDATE'' \<and>
        18 < length (trace w) \<and>
        stage_after (fake_platform 4 ''/tmp/recovery.log'') (take (Suc 18) (calls w))
          = Invalidated \<and>
        disk_magic (fake_platform 4 ''/tmp/recovery.log'') (snd (trace w ! 18))
          = replicate 16 0 \<and>
        19 < length (trace w) \<and>
        stage_after (fake_platform 4 ''/tmp/recovery.log'') (take (Suc 19) (calls w))
          = Reopened \<and>
        disk_magic (fake_platform 4 ''/tmp/recovery.log'') (snd (trace w ! 19))
          = replicate 16 0 \<and>
        20 < length (trace w) \<and>
        stage_after (fake_platform 4 ''/tmp/recovery.log'') (take (Suc 20) (calls w))
          = Installed \<and>
        disk_magic (fake_platform 4 ''/tmp/recovery.log'') (snd (trace w ! 20))
          = ascii ''MSM-RADIO-UPDATE'' \<and>
        stage_after (fake_platform 4 ''/tmp/recovery.log'') (calls w) = Installed \<and>
        r = Return 0 \<and>
        disk_magic (fake_platform 4 ''/tmp/recovery.log'') (dev w) = ascii ''MSM-RADIO-UPDATE'') \<and>
   (case write_update_for_bootloader (fake_platform 4 ''/tmp/recovery.log'')
           (Some (ascii ''payload'')) 7 1 1 16 (Some [1, 2]) (Some [3, 4])
           (Some ''/tmp/recovery.log'') (start (blank\<lparr>writes_left := Some 6\<rparr>)) of
      (r, w) \<Rightarrow>
        22 < length (trace w) \<and>
        stage_after (fake_platform 4 ''/tmp/recovery.log'') (take (Suc 22) (calls w))
          = Installed \<and>
        disk_magic (fake_platform 4 ''/tmp/recovery.log'') (snd (trace w ! 22))
          = ascii ''MSM-RADIO-UPDATE'' \<and>
        stage_after (fake_platform 4 ''/tmp/recovery.log'') (calls w) = Installed \<and>
        r = Return (- 1) \<and>
        disk_magic (fake_platform 4 ''/tmp/recovery.log'') (dev w) = ascii ''MSM-RADIO-UPDATE'')"
proof -
  let ?P = "fake_platform 4 ''/tmp/recovery.log''"
  let ?run = "write_update_for_bootloader ?P
           (Some (ascii ''payload'')) 7 1 1 16 (Some [1, 2]) (Some [3, 4]) None
           (start (blank\<lparr>cache := ascii ''MSM-RADIO-UPDATE'' @ replicate 368 7\<rparr>))"
  let ?run' = "write_update_for_bootloader ?P
           (Some (ascii ''payload'')) 7 1 1 16 (Some [1, 2]) (Some [3, 4])
           (Some ''/tmp/recovery.log'') (start (blank\<lparr>writes_left := Some 6\<rparr>))"
  have run: "?run = (fst ?run, snd ?run)" by simp
  have run': "?run' = (fst ?run', snd ?run')" by simp
  have ev: "case ?run of
      (r, w) \<Rightarrow>
        disk_magic ?P (snd (trace w ! 1)) = ascii ''MSM-RADIO-UPDATE'' \<and>
        18 < length (trace w) \<and>
        stage_after ?P (take (Suc 18) (calls w)) = Invalidated \<and>
        19 < length (trace w) \<and>
        stage_after ?P (take (Suc 19) (calls w)) = Reopened \<and>
        20 < length (trace w) \<and>
        stage_after ?P (take (Suc 20) (calls w)) = Installed \<and>
        stage_after ?P (calls w) = Installed \<and>
        r = Return 0"
    by code_simp
  have ev': "case ?run' of
      (r, w) \<Rightarrow>
        22 < length (trace w) \<and>
        stage_after ?P (take (Suc 22) (calls w)) = Installed \<and>
        stage_after ?P (calls w) = Installed \<and>
        r = Return (- 1)"
    by code_simp
  have m: "UPDATE_MAGIC ?P = ascii ''MSM-RADIO-UPDATE''"
    by (simp add: fake_platform_def)
  from header_invalid_until_rewritten [OF run] ev
  have a: "case ?run of
      (r, w) \<Rightarrow>
        disk_magic ?P (snd (trace w ! 18)) = replicate 16 0 \<and>
        disk_magic ?P (snd (trace w ! 19)) = replicate 16 0 \<and>
        disk_magic ?P (snd (trace w ! 20)) = ascii ''MSM-RADIO-UPDATE'' \<and>
        disk_magic ?P (dev w) = ascii ''MSM-RADIO-UPDATE''"
    by (simp add: case_prod_beta m)
  from header_invalid_until_rewritten [OF run'] ev'
  have b: "case ?run' of
      (r, w) \<Rightarrow>
        disk_magic ?P (snd (trace w ! 22)) = ascii ''MSM-RADIO-UPDATE'' \<and>
        disk_magic ?P (dev w) = ascii ''MSM-RADIO-UPDATE''"
    by (simp add: case_prod_beta m)
  from ev ev' a b show ?thesis
    by (simp add: case_prod_beta)
qed

text \<open>
  C1 as stated fails: the header is rewritten on line 266, before the log step, the
  alignment check and the last close. Here the query of the erase size on line 275 fails,
  on a platform that is the test platform but for that query: the function returns -1
  and the device holds the header with the magic.
\<close>

theorem magic_left_after_failure:
  "(case write_update_for_bootloader
           ((fake_platform 4 ''/tmp/recovery.log'')
              \<lparr>mtd_partition_info := \<lambda>p d. ((- 1, 0, 0, 0), d)\<rparr>)
           (Some (ascii ''payload'')) 7 1 1 16 (Some [1, 2]) (Some [3, 4])
           (Some ''/tmp/recovery.log'') (start blank) of
      (r, w) \<Rightarrow>
        r = Return (- 1) \<and>
        disk_magic (fake_platform 4 ''/tmp/recovery.log'') (dev w)
          = UPDATE_MAGIC (fake_platform 4 ''/tmp/recovery.log'') \<and>
        UPDATE_MAGIC (fake_platform 4 ''/tmp/recovery.log'') \<noteq> replicate 16 0)"
  by code_simp

section \<open>The update image: what a successful call has done\<close>

text \<open>
  C2. When \<^verbatim>\<open>write_update_for_bootloader\<close> returns 0, the erase-align right before the
  write of the payload returned a position \<open>pos\<close>, the write-start the primitive resolved
  for \<open>pos\<close> in the first session is \<open>off\<close>, the header written in the second session
  carries the magic and records \<open>off\<close> as the offset of the payload, and the erase-align of
  the second session, the last before the close, returned \<open>pos\<close> again. So a second
  erase-align that returns anything else does not end in success.
\<close>

theorem payload_offset_recorded:
  assumes run: "write_update_for_bootloader P update update_length bw bh bpp busy_bitmap
                  fail_bitmap log_filename (start d) = (Return 0, w)"
  shows "\<exists>wr wr2 pos off hdr pre mid mid2 post.
     calls w =
       pre @
       [Mtd_erase_blocks wr 0 pos,
        Mtd_write_data wr update update_length update_length] @
       mid @
       [Mtd_find_write_start wr pos off] @
       mid2 @
       [Mtd_write_data wr2 (Some (header_bytes hdr)) (header_size P) (header_size P)] @
       post @
       [Mtd_erase_blocks wr2 0 pos,
        Log_E ''closing partition\<newline>'',
        Mtd_write_close wr2 0] \<and>
     MAGIC hdr = UPDATE_MAGIC P \<and> image_offset hdr = off \<and> image_length hdr = update_length"
proof -
  from success_calls [OF run] obtain pt wr wr2 res lg pos bpos fpos e off boff foff where
    c: "calls w =
       [Mtd_find_partition_by_name (CACHE_NAME P) (Some pt),
        Mtd_write_partition pt (Some wr),
        Mtd_write_data wr (Some (header_bytes (zero_header P))) (header_size P) (header_size P)] @
       res @
       [Mtd_erase_blocks wr 0 pos,
        Mtd_write_data wr update update_length update_length,
        Mtd_erase_blocks wr 0 bpos,
        Mtd_find_write_start wr pos off,
        Log_E ''writing busy bitmap\<newline>'',
        Mtd_write_data wr busy_bitmap (bitmap_length bpp bw bh) (bitmap_length bpp bw bh),
        Log_E ''busy bitmap written\<newline>'',
        Mtd_erase_blocks wr 0 fpos,
        Log_E ''block padded\<newline>'',
        Mtd_find_write_start wr bpos boff,
        Mtd_write_data wr fail_bitmap (bitmap_length bpp bw bh) (bitmap_length bpp bw bh),
        Log_E ''finishing block\<newline>'',
        Mtd_erase_blocks wr 0 e,
        Log_E ''finished block\<newline>'',
        Mtd_find_write_start wr fpos foff,
        Mtd_write_close wr 0,
        Mtd_write_partition pt (Some wr2),
        Mtd_write_data wr2
          (Some (header_bytes
             (final_header P update_length bw bh bpp busy_bitmap fail_bitmap off boff foff)))
          (header_size P) (header_size P)] @
       lg @
       [Mtd_erase_blocks wr2 0 pos,
        Log_E ''closing partition\<newline>'',
        Mtd_write_close wr2 0]"
    by blast
  show ?thesis
    apply (rule exI [of _ wr], rule exI [of _ wr2], rule exI [of _ pos], rule exI [of _ off])
    apply (rule exI [of _ "final_header P update_length bw bh bpp busy_bitmap fail_bitmap
                             off boff foff"])
    apply (rule exI [of _ "[Mtd_find_partition_by_name (CACHE_NAME P) (Some pt),
        Mtd_write_partition pt (Some wr),
        Mtd_write_data wr (Some (header_bytes (zero_header P))) (header_size P) (header_size P)]
        @ res"])
    apply (rule exI [of _ "[Mtd_erase_blocks wr 0 bpos]"])
    apply (rule exI [of _ "[Log_E ''writing busy bitmap\<newline>'',
        Mtd_write_data wr busy_bitmap (bitmap_length bpp bw bh) (bitmap_length bpp bw bh),
        Log_E ''busy bitmap written\<newline>'',
        Mtd_erase_blocks wr 0 fpos,
        Log_E ''block padded\<newline>'',
        Mtd_find_write_start wr bpos boff,
        Mtd_write_data wr fail_bitmap (bitmap_length bpp bw bh) (bitmap_length bpp bw bh),
        Log_E ''finishing block\<newline>'',
        Mtd_erase_blocks wr 0 e,
        Log_E ''finished block\<newline>'',
        Mtd_find_write_start wr fpos foff,
        Mtd_write_close wr 0,
        Mtd_write_partition pt (Some wr2)]"])
    apply (rule exI [of _ lg])
    using c by (simp add: final_header_def)
qed

text \<open>A run on the test device, without a log file.\<close>

theorem payload_offset_recorded_witness:
  "fst (write_update_for_bootloader (fake_platform 4 ''/tmp/recovery.log'')
          (Some (ascii ''payload'')) 7 1 1 16 (Some [1, 2]) (Some [3, 4]) None (start blank))
     = Return 0 \<and>
   (\<exists>wr wr2 pos off hdr pre mid mid2 post.
     calls (snd (write_update_for_bootloader (fake_platform 4 ''/tmp/recovery.log'')
          (Some (ascii ''payload'')) 7 1 1 16 (Some [1, 2]) (Some [3, 4]) None (start blank))) =
       pre @
       [Mtd_erase_blocks wr 0 pos,
        Mtd_write_data wr (Some (ascii ''payload'')) 7 7] @
       mid @
       [Mtd_find_write_start wr pos off] @
       mid2 @
       [Mtd_write_data wr2 (Some (header_bytes hdr))
          (header_size (fake_platform 4 ''/tmp/recovery.log''))
          (header_size (fake_platform 4 ''/tmp/recovery.log''))] @
       post @
       [Mtd_erase_blocks wr2 0 pos,
        Log_E ''closing partition\<newline>'',
        Mtd_write_close wr2 0] \<and>
     MAGIC hdr = UPDATE_MAGIC (fake_platform 4 ''/tmp/recovery.log'') \<and>
     image_offset hdr = off \<and> image_length hdr = 7)"
proof -
  let ?run = "write_update_for_bootloader (fake_platform 4 ''/tmp/recovery.log'')
          (Some (ascii ''payload'')) 7 1 1 16 (Some [1, 2]) (Some [3, 4]) None (start blank)"
  have ok: "fst ?run = Return 0" by code_simp
  then have run: "?run = (Return 0, snd ?run)" by (simp add: prod_eq_iff)
  from payload_offset_recorded [OF run] ok show ?thesis by blast
qed

section \<open>The log file\<close>

lemma quiet_refl [simp]: "quiet w w"
  by (simp add: quiet_def)

lemma quiet_trans: "quiet w0 w1 \<Longrightarrow> quiet w1 w2 \<Longrightarrow> quiet w0 w2"
  by (auto simp: quiet_def)

lemma quiet_then_do:
  assumes "then_do x f = (y, w)" and "quiet w0 (snd x)"
    and "\<And>a w1 y' w'. f a w1 = (y', w') \<Longrightarrow> quiet w1 w'"
  shows "quiet w0 w"
  using assms
  by (auto simp: then_do_def split: prod.splits sum.splits intro: quiet_trans)

lemma quiet_open_cache: "open_cache P w0 = (x, w) \<Longrightarrow> quiet w0 w"
  by (auto simp: open_cache_def quiet_def split: prod.splits option.splits dest!: calls_call)

lemma quiet_write_zero_header: "write_zero_header P pw w0 = (x, w) \<Longrightarrow> quiet w0 w"
  by (auto simp: write_zero_header_def quiet_def split: prod.splits if_splits dest!: calls_call)

lemma quiet_reserve_log_block: "reserve_log_block P lf L w0 = (x, w) \<Longrightarrow> quiet w0 w"
  by (auto simp: reserve_log_block_def quiet_def split: prod.splits if_splits dest!: calls_call)

lemma quiet_write_payload: "write_payload P u ul L w0 = (x, w) \<Longrightarrow> quiet w0 w"
  by (auto simp: write_payload_def quiet_def Let_def split: prod.splits if_splits
      dest!: calls_call)

lemma quiet_write_busy_bitmap: "write_busy_bitmap P bw bh bpp b L w0 = (x, w) \<Longrightarrow> quiet w0 w"
  by (auto simp: write_busy_bitmap_def quiet_def Let_def split: prod.splits if_splits
      dest!: calls_call)

lemma quiet_write_fail_bitmap: "write_fail_bitmap P bw bh bpp b L w0 = (x, w) \<Longrightarrow> quiet w0 w"
  by (auto simp: write_fail_bitmap_def quiet_def Let_def split: prod.splits if_splits
      dest!: calls_call)

lemma quiet_close_first_session: "close_first_session P L w0 = (x, w) \<Longrightarrow> quiet w0 w"
  by (auto simp: close_first_session_def quiet_def split: prod.splits if_splits
      dest!: calls_call)

lemma quiet_rewrite_header: "rewrite_header P L w0 = (x, w) \<Longrightarrow> quiet w0 w"
  by (auto simp: rewrite_header_def quiet_def split: prod.splits if_splits option.splits
      dest!: calls_call)

lemma quiet_check_alignment_and_close:
  "check_alignment_and_close P L w0 = (x, w) \<Longrightarrow> quiet w0 w"
  by (auto simp: check_alignment_and_close_def quiet_def split: prod.splits if_splits
      dest!: calls_call)

lemma quiet_first_pass:
  assumes "first_pass P u ul bw bh bpp b f lf w0 = (x, w)"
  shows "quiet w0 w"
  apply (rule quiet_then_do [OF assms [unfolded first_pass_def]])
   apply (rule quiet_then_do [OF surjective_pairing])
    apply (rule quiet_then_do [OF surjective_pairing])
     apply (rule quiet_then_do [OF surjective_pairing])
      apply (rule quiet_then_do [OF surjective_pairing])
       apply (rule quiet_then_do [OF surjective_pairing])
        apply (rule quiet_open_cache [OF surjective_pairing])
       apply (erule quiet_write_zero_header)
      apply (erule quiet_reserve_log_block)
     apply (erule quiet_write_payload)
    apply (erule quiet_write_busy_bitmap)
   apply (erule quiet_write_fail_bitmap)
  apply (erule quiet_close_first_session)
  done


lemma write_log_fopen:
  assumes "write_log P (Some name) L w0 = (x, w)"
  shows "quiet w0 w \<or>
    (\<exists>pre f es post.
       calls w = calls w0 @ pre @ [Fopen name f, Fseek f (- log_room P es)] @ post \<and>
       (\<forall>n g. Fopen n g \<notin> set pre \<and> Fopen n g \<notin> set post) \<and>
       (x = Inl Undefined \<or>
        (x = Inr L \<and>
         (\<exists>n tl. post = [Fread f (log_room P es) n,
                          Log_I ''read %d bytes from log\<newline>'' [Arg_int n],
                          Fclose f] @ tl))))"
  using write_log_calls [OF assms]
proof (elim disjE exE conjE)
  fix rc c
  assume "calls w = calls w0 @
              [Log_E ''writing log\<newline>'', Mtd_partition_info (part L) rc,
               Log_E ''Error reading block size\<newline>(%s)\<newline>'',
               Mtd_write_close (write_ctx L) c]"
  then show ?thesis by (simp add: quiet_def)
next
  fix e
  assume "calls w = calls w0 @
              [Log_E ''writing log\<newline>'', Mtd_partition_info (part L) 0,
               Mtd_erase_blocks (write_ctx L) 0 e]"
  then show ?thesis by (simp add: quiet_def)
next
  fix e es blk f tl
  assume x: "x = Inl Undefined" and tl: "\<forall>n g. Fopen n g \<notin> set tl"
    and c: "calls w = calls w0 @
              [Log_E ''writing log\<newline>'', Mtd_partition_info (part L) 0,
               Mtd_erase_blocks (write_ctx L) 0 e, Malloc es blk,
               Fopen name f, Fseek f (- log_room P es)] @ tl"
  have "\<exists>pre f es post.
       calls w = calls w0 @ pre @ [Fopen name f, Fseek f (- log_room P es)] @ post \<and>
       (\<forall>n g. Fopen n g \<notin> set pre \<and> Fopen n g \<notin> set post) \<and>
       (x = Inl Undefined \<or>
        (x = Inr L \<and>
         (\<exists>n tl. post = [Fread f (log_room P es) n,
                          Log_I ''read %d bytes from log\<newline>'' [Arg_int n],
                          Fclose f] @ tl)))"
    apply (rule exI [of _ "[Log_E ''writing log\<newline>'', Mtd_partition_info (part L) 0,
               Mtd_erase_blocks (write_ctx L) 0 e, Malloc es blk]"])
    apply (rule exI [of _ f], rule exI [of _ es], rule exI [of _ tl])
    using x tl c by simp
  then show ?thesis ..
next
  fix e es blk f n lg r c
  assume x: "x = Inr L"
    and c: "calls w = calls w0 @
              [Log_E ''writing log\<newline>'', Mtd_partition_info (part L) 0,
               Mtd_erase_blocks (write_ctx L) 0 e, Malloc es blk,
               Fopen name f, Fseek f (- log_room P es), Fread f (log_room P es) n,
               Log_I ''read %d bytes from log\<newline>'' [Arg_int n], Fclose f,
               Mtd_write_data (write_ctx L) (Some lg) es r] @
              (if r \<noteq> es
               then [Log_E ''failed to store log in cache partition\<newline>(%s)\<newline>'',
                     Mtd_write_close (write_ctx L) c]
               else []) @ [Free]"
  have "\<exists>pre f es post.
       calls w = calls w0 @ pre @ [Fopen name f, Fseek f (- log_room P es)] @ post \<and>
       (\<forall>n g. Fopen n g \<notin> set pre \<and> Fopen n g \<notin> set post) \<and>
       (x = Inl Undefined \<or>
        (x = Inr L \<and>
         (\<exists>n tl. post = [Fread f (log_room P es) n,
                          Log_I ''read %d bytes from log\<newline>'' [Arg_int n],
                          Fclose f] @ tl)))"
    apply (rule exI [of _ "[Log_E ''writing log\<newline>'', Mtd_partition_info (part L) 0,
               Mtd_erase_blocks (write_ctx L) 0 e, Malloc es blk]"])
    apply (rule exI [of _ f], rule exI [of _ es])
    apply (rule exI [of _ "[Fread f (log_room P es) n,
               Log_I ''read %d bytes from log\<newline>'' [Arg_int n], Fclose f,
               Mtd_write_data (write_ctx L) (Some lg) es r] @
              (if r \<noteq> es
               then [Log_E ''failed to store log in cache partition\<newline>(%s)\<newline>'',
                     Mtd_write_close (write_ctx L) c]
               else []) @ [Free]"])
    using x c by simp
  then show ?thesis ..
qed


lemma quiet_no_fopen: "quiet (start d) w \<Longrightarrow> Fopen n f \<notin> set (calls w)"
  by (auto simp: quiet_def)

text \<open>
  C10. In every call with a log file name, whatever \<^verbatim>\<open>fopen\<close> returned for it, a null
  pointer included, is the file of the next call, the \<^verbatim>\<open>fseek\<close>, and, unless the copy into
  the block from \<^verbatim>\<open>malloc\<close> is undefined, of the \<^verbatim>\<open>fread\<close> and the \<^verbatim>\<open>fclose\<close> that follow
  with nothing but the \<^verbatim>\<open>LOGI\<close> line in between: no branch looks at the result of \<^verbatim>\<open>fopen\<close>.
  The file is opened only when the erase size is not zero.
\<close>

theorem log_file_handle_unchecked:
  assumes run: "write_update_for_bootloader P update update_length bw bh bpp busy_bitmap
                  fail_bitmap (Some name) (start d) = (res, w)"
    and opened: "Fopen name f \<in> set (calls w)"
  shows "\<exists>pre es post.
     calls w = pre @ [Fopen name f, Fseek f (- log_room P es)] @ post \<and>
     (res \<noteq> Undefined \<longrightarrow>
        (\<exists>n tl. post = [Fread f (log_room P es) n,
                         Log_I ''read %d bytes from log\<newline>'' [Arg_int n],
                         Fclose f] @ tl))"
proof -
  obtain x1 w1 where fp:
    "first_pass P update update_length bw bh bpp busy_bitmap fail_bitmap (Some name) (start d)
       = (x1, w1)"
    by (cases "first_pass P update update_length bw bh bpp busy_bitmap fail_bitmap (Some name)
                 (start d)") blast
  have q1: "quiet (start d) w1" using fp by (rule quiet_first_pass)
  show ?thesis
  proof (cases x1)
    case (Inl r)
    with run fp have "w = w1"
      by (simp add: write_update_for_bootloader_def then_do_def)
    with q1 opened show ?thesis by (simp add: quiet_no_fopen)
  next
    case (Inr L1)
    obtain x2 w2 where rh: "rewrite_header P L1 w1 = (x2, w2)"
      by (cases "rewrite_header P L1 w1") blast
    have q2: "quiet (start d) w2"
      using q1 rh by (blast intro: quiet_trans quiet_rewrite_header)
    show ?thesis
    proof (cases x2)
      case (Inl r)
      with run fp rh \<open>x1 = Inr L1\<close> have "w = w2"
        by (simp add: write_update_for_bootloader_def then_do_def second_pass_def)
      with q2 opened show ?thesis by (simp add: quiet_no_fopen)
    next
      case (Inr L2)
      obtain x3 w3 where wl: "write_log P (Some name) L2 w2 = (x3, w3)"
        by (cases "write_log P (Some name) L2 w2") blast
      have tail: "(\<exists>r. x3 = Inl r \<and> res = r \<and> w = w3) \<or>
                  (\<exists>L3. x3 = Inr L3 \<and> check_alignment_and_close P L3 w3 = (res, w))"
        using run fp rh wl \<open>x1 = Inr L1\<close> \<open>x2 = Inr L2\<close>
        by (cases x3) (simp_all add: write_update_for_bootloader_def then_do_def second_pass_def)
      then have q4: "quiet w3 w"
        by (auto dest: quiet_check_alignment_and_close)
      from write_log_fopen [OF wl] show ?thesis
      proof (elim disjE exE conjE)
        assume "quiet w2 w3"
        with q2 q4 have "quiet (start d) w" by (blast intro: quiet_trans)
        with opened show ?thesis by (simp add: quiet_no_fopen)
      next
        fix pre g es post
        assume c3: "calls w3 = calls w2 @ pre @ [Fopen name g, Fseek g (- log_room P es)] @ post"
          and nf: "\<forall>n h. Fopen n h \<notin> set pre \<and> Fopen n h \<notin> set post"
          and x3: "x3 = Inl Undefined"
        from tail x3 have "res = Undefined" "w = w3" by auto
        from q2 obtain es2 where c2: "calls w2 = es2" and n2: "\<forall>n h. Fopen n h \<notin> set es2"
          by (auto simp: quiet_def)
        from opened \<open>w = w3\<close> c3 c2 n2 nf have "g = f" by auto
        with c3 \<open>w = w3\<close> \<open>res = Undefined\<close>
        have "calls w = (calls w2 @ pre) @ [Fopen name f, Fseek f (- log_room P es)] @ post \<and>
              (res \<noteq> Undefined \<longrightarrow>
                (\<exists>n tl. post = [Fread f (log_room P es) n,
                         Log_I ''read %d bytes from log\<newline>'' [Arg_int n],
                         Fclose f] @ tl))"
          by simp
        then show ?thesis by - (rule exI, rule exI, rule exI, assumption)
      next
        fix pre g es post n tl
        assume c3: "calls w3 = calls w2 @ pre @ [Fopen name g, Fseek g (- log_room P es)] @ post"
          and nf: "\<forall>n h. Fopen n h \<notin> set pre \<and> Fopen n h \<notin> set post"
          and x3: "x3 = Inr L2"
          and post: "post = [Fread g (log_room P es) n,
                             Log_I ''read %d bytes from log\<newline>'' [Arg_int n],
                             Fclose g] @ tl"
        from q4 obtain es4 where c4: "calls w = calls w3 @ es4"
          and n4: "\<forall>n h. Fopen n h \<notin> set es4"
          by (auto simp: quiet_def)
        from q2 obtain es2 where c2: "calls w2 = es2" and n2: "\<forall>n h. Fopen n h \<notin> set es2"
          by (auto simp: quiet_def)
        from opened c4 c3 c2 n2 n4 nf have "g = f" by auto
        with c3 c4 post
        have "calls w = (calls w2 @ pre) @ [Fopen name f, Fseek f (- log_room P es)]
                @ (post @ es4) \<and>
              (res \<noteq> Undefined \<longrightarrow>
                (\<exists>n tl. post @ es4 = [Fread f (log_room P es) n,
                         Log_I ''read %d bytes from log\<newline>'' [Arg_int n],
                         Fclose f] @ tl))"
          by simp
        then show ?thesis by - (rule exI, rule exI, rule exI, assumption)
      qed
    qed
  qed
qed

text \<open>A log file that does not exist: the null pointer goes to all three calls.\<close>

theorem log_file_handle_unchecked_witness:
  "Fopen ''/nowhere'' None
     \<in> set (calls (snd (write_update_for_bootloader (fake_platform 4 ''/nowhere'')
          (Some (ascii ''payload'')) 7 1 1 16 (Some [1, 2]) (Some [3, 4]) (Some ''/nowhere'')
          (start blank)))) \<and>
   (\<exists>pre es post.
     calls (snd (write_update_for_bootloader (fake_platform 4 ''/nowhere'')
          (Some (ascii ''payload'')) 7 1 1 16 (Some [1, 2]) (Some [3, 4]) (Some ''/nowhere'')
          (start blank)))
       = pre @ [Fopen ''/nowhere'' None,
                Fseek None (- log_room (fake_platform 4 ''/nowhere'') es)] @ post \<and>
     (fst (write_update_for_bootloader (fake_platform 4 ''/nowhere'')
          (Some (ascii ''payload'')) 7 1 1 16 (Some [1, 2]) (Some [3, 4]) (Some ''/nowhere'')
          (start blank)) \<noteq> Undefined \<longrightarrow>
        (\<exists>n tl. post = [Fread None (log_room (fake_platform 4 ''/nowhere'') es) n,
                         Log_I ''read %d bytes from log\<newline>'' [Arg_int n],
                         Fclose None] @ tl)))"
proof -
  let ?run = "write_update_for_bootloader (fake_platform 4 ''/nowhere'')
          (Some (ascii ''payload'')) 7 1 1 16 (Some [1, 2]) (Some [3, 4]) (Some ''/nowhere'')
          (start blank)"
  have run: "?run = (fst ?run, snd ?run)" by simp
  have opened: "Fopen ''/nowhere'' None \<in> set (calls (snd ?run))" by code_simp
  from log_file_handle_unchecked [OF run opened] opened show ?thesis by blast
qed

section \<open>Where the code leaves the specification\<close>

text \<open>
  C3 does not hold of the code. On the test device with an erase-align and a write-start
  resolution that return -1 at every call, all else working, the function returns 0. The
  tests on lines 211, 228 and 240 read \<^verbatim>\<open>header.image_offset\<close>,
  \<^verbatim>\<open>header.busy_bitmap_offset\<close> and \<^verbatim>\<open>header.fail_bitmap_offset\<close> while they are still zero
  from line 178; the positions and the offsets assigned afterwards are never compared with
  -1.
\<close>

theorem invalid_offsets_not_fatal:
  "(case write_update_for_bootloader
           ((fake_platform 4 ''/tmp/recovery.log'')
              \<lparr>mtd_erase_blocks := \<lambda>h b d. (- 1, d),
               mtd_find_write_start := \<lambda>h p d. (- 1, d)\<rparr>)
           (Some (ascii ''payload'')) 7 1 1 16 (Some [1, 2]) (Some [3, 4]) None (start blank) of
      (r, w) \<Rightarrow>
        r = Return 0 \<and>
        [e \<leftarrow> calls w. case e of Mtd_erase_blocks h b p \<Rightarrow> True
                          | Mtd_find_write_start h p q \<Rightarrow> True | _ \<Rightarrow> False] =
          [Mtd_erase_blocks 12 0 (- 1), Mtd_erase_blocks 12 0 (- 1),
           Mtd_find_write_start 12 (- 1) (- 1),
           Mtd_erase_blocks 12 0 (- 1), Mtd_find_write_start 12 (- 1) (- 1),
           Mtd_erase_blocks 12 0 (- 1), Mtd_find_write_start 12 (- 1) (- 1),
           Mtd_erase_blocks 12 0 (- 1)])"
  by code_simp

text \<open>
  C6 does not hold of the code. With a null busy bitmap, one pixel and 16 bits per pixel,
  the write issued for the busy region on line 229 passes the null pointer with the
  length 2, not 0, and asks for 2 as its result; the test device fails it and the function
  returns -1.
\<close>

theorem null_busy_bitmap_write:
  "(case write_update_for_bootloader (fake_platform 4 ''/tmp/recovery.log'')
           (Some (ascii ''payload'')) 7 1 1 16 None (Some [3, 4]) None (start blank) of
      (r, w) \<Rightarrow>
        r = Return (- 1) \<and>
        drop 7 (calls w) =
          [Log_E ''writing busy bitmap\<newline>'',
           Mtd_write_data 12 None 2 (- 1),
           Log_E ''Can't write bitmap to %s\<newline>(%s)\<newline>'',
           Mtd_write_close 12 0])"
  by code_simp

text \<open>
  C7 does not hold of the code. The device fails its seventh write, the log block. Line 298
  closes the session, and lines 304 and 311 go on to use it: the erase-align on the closed
  session returns -1, which is not the position of the payload, and the function returns
  -1.
\<close>

theorem log_write_failure_fails:
  "(case write_update_for_bootloader (fake_platform 4 ''/tmp/recovery.log'')
           (Some (ascii ''payload'')) 7 1 1 16 (Some [1, 2]) (Some [3, 4])
           (Some ''/tmp/recovery.log'') (start (blank\<lparr>writes_left := Some 6\<rparr>)) of
      (r, w) \<Rightarrow>
        r = Return (- 1) \<and>
        drop 33 (calls w) =
          [Log_E ''failed to store log in cache partition\<newline>(%s)\<newline>'',
           Mtd_write_close 12 0,
           Free,
           Mtd_erase_blocks 12 0 (- 1),
           Log_E ''Misalignment rewriting %s\<newline>(%s)\<newline>'',
           Mtd_write_close 12 (- 1)])"
  by code_simp

end
